theory Spec2Isabelle
  imports Complex_Main "HOL-Library.Sublist"
begin

section \<open>Python values used by the program\<close>

text \<open>
  Exceptions are values. Each constructor stands for one exception the modelled code can
  raise inside a \<^verbatim>\<open>try\<close> block; \<open>str_error\<close> is Python's \<^verbatim>\<open>str(e)\<close>.
  \<open>IndexError\<close> and \<open>AttributeError\<close> carry Python's message, \<open>KeyError\<close> the missing key,
  \<open>RemoteError\<close> the message of whatever the remote completion call raised.
\<close>

datatype py_error = IndexError string | KeyError string | AttributeError string | RemoteError string

definition str_error :: "py_error \<Rightarrow> string" where
  "str_error e =
     (case e of
        IndexError m \<Rightarrow> m
      | KeyError k \<Rightarrow> [CHR 0x27] @ k @ [CHR 0x27]
      | AttributeError m \<Rightarrow> m
      | RemoteError m \<Rightarrow> m)"

text \<open>Decimal rendering of an integer, as an f-string renders an \<^verbatim>\<open>int\<close>.\<close>

definition digit_char :: "nat \<Rightarrow> char" where
  "digit_char d = ''0123456789'' ! d"

fun str_nat :: "nat \<Rightarrow> string" where
  "str_nat n = (if n < 10 then [digit_char n] else str_nat (n div 10) @ [digit_char (n mod 10)])"

declare str_nat.simps [simp del]

definition str_int :: "int \<Rightarrow> string" where
  "str_int i = (if i < 0 then ''-'' @ str_nat (nat (- i)) else str_nat (nat i))"

text \<open>
  The slice \<^verbatim>\<open>xs[start:]\<close>: a negative start counts from the end and is clamped at
  the front, a start beyond the end gives the empty list.
\<close>

definition py_slice_from :: "int \<Rightarrow> 'a list \<Rightarrow> 'a list" where
  "py_slice_from start xs =
     (let n = int (length xs);
          i = (if start < 0 then max (start + n) 0 else min start n)
      in drop (nat i) xs)"

section \<open>Screen capture (screen\_capture.py)\<close>

record screenshot =
  image_path :: string
  timestamp :: real

text \<open>
  The fields of \<^verbatim>\<open>ScreenCapture\<close> that the capture loop and the queries touch.
  \<open>removed_files\<close> is the file system's side of the loop: the paths handed to
  \<^verbatim>\<open>os.remove\<close>, in call order.
\<close>

record screen_capture =
  screenshots :: "screenshot list"
  max_screenshots :: int
  removed_files :: "string list"

definition screen_capture_init :: "int \<Rightarrow> screen_capture" where
  "screen_capture_init m = \<lparr>screenshots = [], max_screenshots = m, removed_files = []\<rparr>"

text \<open>
  The eviction loop \<^verbatim>\<open>while len(self.screenshots) > self.max_screenshots: pop(0); os.remove\<close>.
  \<^verbatim>\<open>pop(0)\<close> on an empty list raises IndexError, which leaves the loop; the result
  carries the exception (if any), the store and the paths removed so far.
\<close>

fun evict_old :: "int \<Rightarrow> screenshot list \<Rightarrow> string list \<Rightarrow> py_error option \<times> screenshot list \<times> string list" where
  "evict_old m [] removed = (if 0 > m then (Some (IndexError ''pop from empty list''), [], removed) else (None, [], removed))"
| "evict_old m (x # xs) removed =
     (if int (length (x # xs)) > m then evict_old m xs (removed @ [image_path x])
      else (None, x # xs, removed))"

text \<open>
  What one iteration of \<^verbatim>\<open>_capture_loop\<close> meets: no image (\<^verbatim>\<open>_capture_screen\<close> gave
  \<^verbatim>\<open>None\<close>), an exception while saving the image, or a saved screenshot.
\<close>

datatype capture_outcome = NoImage | SaveRaised | Captured screenshot

text \<open>
  One iteration of \<^verbatim>\<open>_capture_loop\<close>. The outer \<^verbatim>\<open>except Exception\<close> swallows every
  exception of the body, so the iteration always yields a state: the one reached when the
  exception was raised.
\<close>

definition capture_loop_iter :: "screen_capture \<Rightarrow> capture_outcome \<Rightarrow> screen_capture" where
  "capture_loop_iter sc out =
     (case out of
        NoImage \<Rightarrow> sc
      | SaveRaised \<Rightarrow> sc
      | Captured s \<Rightarrow>
          (case evict_old (max_screenshots sc) (screenshots sc @ [s]) (removed_files sc) of
             (_, kept, removed) \<Rightarrow> sc\<lparr>screenshots := kept, removed_files := removed\<rparr>))"

definition capture_loop :: "screen_capture \<Rightarrow> capture_outcome list \<Rightarrow> screen_capture" where
  "capture_loop sc outs = foldl capture_loop_iter sc outs"

text \<open>\<^verbatim>\<open>self.screenshots[-count:] if self.screenshots else []\<close>; the store is only read.\<close>

definition get_recent_screenshots :: "screen_capture \<Rightarrow> int \<Rightarrow> screenshot list" where
  "get_recent_screenshots sc count =
     (if screenshots sc \<noteq> [] then py_slice_from (- count) (screenshots sc) else [])"

definition get_screenshot_count :: "screen_capture \<Rightarrow> int" where
  "get_screenshot_count sc = int (length (screenshots sc))"

section \<open>AI client (ai\_client.py)\<close>

datatype role = User | Assistant

text \<open>
  One entry of \<^verbatim>\<open>conversation_history\<close>: the dictionary
  \<^verbatim>\<open>{"role": r, "content": [{"type": "text", "text": t}]}\<close>.
\<close>

record turn =
  turn_role :: role
  turn_text :: string

text \<open>
  The \<^verbatim>\<open>game_state\<close> dictionary handed to \<^verbatim>\<open>analyze\<close>, one field per key it reads;
  \<open>None\<close> is a missing key (for \<open>gs_message\<close> and \<open>gs_game_name\<close> also the value
  \<^verbatim>\<open>None\<close>, which \<^verbatim>\<open>.get\<close> does not tell apart). \<open>gs_additional_context\<close> holds the
  text that the f-string renders for the value.
\<close>

record game_state =
  gs_screenshots :: "screenshot list option"
  gs_message :: "string option"
  gs_game_name :: "string option"
  gs_additional_context :: "string option"

text \<open>
  The remote completion service is outside the repository. A call of
  \<^verbatim>\<open>self.client.messages.create(..., messages=messages)\<close> is an oracle over the messages
  sent: it raises, or it returns a response, of which \<^verbatim>\<open>analyze\<close> reads \<^verbatim>\<open>content\<close>, a
  list of content blocks. A text block has a \<^verbatim>\<open>text\<close>; a block of any other class, given
  by its name, has none. Model, temperature, token limit and system prompt are constants
  of every call.
\<close>

datatype content_block = TextBlock string | OtherBlock string

type_synonym completion = "turn list \<Rightarrow> py_error + content_block list"

text \<open>
  \<^verbatim>\<open>response.content[0].text\<close>: IndexError on an empty list, AttributeError on a first
  block that has no text.
\<close>

definition response_text :: "content_block list \<Rightarrow> py_error + string" where
  "response_text content =
     (case content of
        [] \<Rightarrow> Inl (IndexError ''list index out of range'')
      | TextBlock t # _ \<Rightarrow> Inr t
      | OtherBlock cls # _ \<Rightarrow>
          Inl (AttributeError ([CHR 0x27] @ cls @ [CHR 0x27] @ '' object has no attribute ''
                 @ [CHR 0x27] @ ''text'' @ [CHR 0x27])))"

text \<open>
  The fields of \<^verbatim>\<open>AIClient\<close> that \<^verbatim>\<open>analyze\<close> reads or writes. \<open>api_calls\<close> is the remote
  side of \<^verbatim>\<open>self.client\<close>: the message lists it has been sent, in call order.
\<close>

record ai_client =
  conversation_history :: "turn list"
  max_history :: int
  max_response_length :: int
  api_calls :: "turn list list"

definition ai_client_init :: "int \<Rightarrow> int \<Rightarrow> ai_client" where
  "ai_client_init response_length window =
     \<lparr>conversation_history = [], max_history = window,
      max_response_length = response_length, api_calls = []\<rparr>"

definition nl :: string where
  "nl = [CHR 0x0A]"

text \<open>The twelve blanks that open every continuation line of the prompt literal.\<close>

definition margin :: string where
  "margin = replicate 12 (CHR '' '')"

text \<open>
  The f-string that opens \<^verbatim>\<open>analyze\<close>: \<open>n\<close> is \<^verbatim>\<open>len(game_state['screenshots'])\<close>, \<open>limit\<close>
  is \<^verbatim>\<open>self.max_response_length\<close>, \<open>ctx\<close> is
  \<^verbatim>\<open>game_state.get('additional_context', 'None provided')\<close>.
\<close>

definition analysis_prompt :: "nat \<Rightarrow> int \<Rightarrow> string \<Rightarrow> string" where
  "analysis_prompt n limit ctx =
     ''Analyze these '' @ str_nat n @ '' screenshots.'' @ nl @
     margin @ nl @
     margin @ ''Remember:'' @ nl @
     margin @ ''- Keep your response under '' @ str_int limit @ '' characters'' @ nl @
     margin @ ''- Focus on what's new/changed'' @ nl @
     margin @ ''- One clear, actionable suggestion'' @ nl @
     margin @ ''- If no game is detected and there's no user message, respond with 'Waiting for gameplay...''
       @ [CHR 0x27] @ nl @
     margin @ ''- If there's a user message, respond to it conversationally while mentioning that you're waiting for gameplay'' @ nl @
     margin @ nl @
     margin @ ''Additional context: '' @ ctx"

text \<open>
  The whole of \<^verbatim>\<open>human_message\<close>. \<^verbatim>\<open>game_state['screenshots']\<close> raises KeyError when the
  key is missing; a message or a game name counts only when it is a non-empty string.
\<close>

definition human_message :: "int \<Rightarrow> game_state \<Rightarrow> py_error + string" where
  "human_message limit gs =
     (case gs_screenshots gs of
        None \<Rightarrow> Inl (KeyError ''screenshots'')
      | Some shots \<Rightarrow>
          (let base = analysis_prompt (length shots) limit
                        (case gs_additional_context gs of None \<Rightarrow> ''None provided'' | Some c \<Rightarrow> c);
               with_message =
                 (case gs_message gs of
                    None \<Rightarrow> base
                  | Some m \<Rightarrow> if m \<noteq> [] then ''User message: '' @ m @ nl @ nl @ base else base);
               with_game =
                 (case gs_game_name gs of
                    None \<Rightarrow> with_message
                  | Some g \<Rightarrow> if g \<noteq> [] then ''Game: '' @ g @ nl @ nl @ with_message else with_message)
           in Inr with_game))"

text \<open>
  The trimming loop \<^verbatim>\<open>while len(self.conversation_history) > self.max_history * 2: pop(0)\<close>,
  with the bound \<open>bound\<close>. \<^verbatim>\<open>pop(0)\<close> on an empty list raises IndexError.
\<close>

fun trim_history :: "int \<Rightarrow> turn list \<Rightarrow> py_error option \<times> turn list" where
  "trim_history bound [] =
     (if 0 > bound then (Some (IndexError ''pop from empty list''), []) else (None, []))"
| "trim_history bound (t # ts) =
     (if int (length (t # ts)) > bound then trim_history bound ts else (None, t # ts))"

text \<open>
  The body of the \<^verbatim>\<open>try\<close> block of \<^verbatim>\<open>analyze\<close>: the value returned or the exception
  raised, together with the client as the body left it. After the remote call has
  returned, the user turn is appended first; \<^verbatim>\<open>response.content[0].text\<close> is read only
  then, as the argument of the second \<^verbatim>\<open>append\<close>, so an exception there leaves the user
  turn in the history.
\<close>

definition analyze_body :: "ai_client \<Rightarrow> completion \<Rightarrow> game_state \<Rightarrow> (py_error + string) \<times> ai_client" where
  "analyze_body c remote gs =
     (case human_message (max_response_length c) gs of
        Inl e \<Rightarrow> (Inl e, c)
      | Inr prompt \<Rightarrow>
          (let messages = conversation_history c @ [\<lparr>turn_role = User, turn_text = prompt\<rparr>];
               c1 = c\<lparr>api_calls := api_calls c @ [messages]\<rparr>
           in case remote messages of
                Inl e \<Rightarrow> (Inl e, c1)
              | Inr response \<Rightarrow>
                  (let c2 = c1\<lparr>conversation_history :=
                                 conversation_history c1 @ [\<lparr>turn_role = User, turn_text = prompt\<rparr>]\<rparr>
                   in case response_text response of
                        Inl e \<Rightarrow> (Inl e, c2)
                      | Inr reply \<Rightarrow>
                          (case trim_history (max_history c2 * 2)
                                  (conversation_history c2 @ [\<lparr>turn_role = Assistant, turn_text = reply\<rparr>]) of
                             (Some e, h3) \<Rightarrow> (Inl e, c2\<lparr>conversation_history := h3\<rparr>)
                           | (None, h3) \<Rightarrow> (Inr reply, c2\<lparr>conversation_history := h3\<rparr>)))))"

text \<open>\<^verbatim>\<open>analyze\<close>: the \<^verbatim>\<open>except Exception\<close> handler turns every exception into a string.\<close>

definition analyze :: "ai_client \<Rightarrow> completion \<Rightarrow> game_state \<Rightarrow> string \<times> ai_client" where
  "analyze c remote gs =
     (case analyze_body c remote gs of
        (Inl e, c') \<Rightarrow> (''Error analyzing game state: '' @ str_error e, c')
      | (Inr reply, c') \<Rightarrow> (reply, c'))"

definition cleanup :: "ai_client \<Rightarrow> ai_client" where
  "cleanup c = c\<lparr>conversation_history := []\<rparr>"

text \<open>
  A run of \<^verbatim>\<open>analyze\<close> calls on one client, each with its own game state and its own
  behaviour of the remote service.
\<close>

fun analyze_all :: "ai_client \<Rightarrow> (completion \<times> game_state) list \<Rightarrow> ai_client" where
  "analyze_all c [] = c"
| "analyze_all c ((remote, gs) # calls) = analyze_all (snd (analyze c remote gs)) calls"

text \<open>
  The exchanges that a run completes, oldest first: for every call of \<^verbatim>\<open>analyze\<close> whose
  \<^verbatim>\<open>try\<close> block ran to its \<^verbatim>\<open>return\<close>, the user turn with the prompt and the assistant
  turn with the reply.
\<close>

fun exchanges :: "ai_client \<Rightarrow> (completion \<times> game_state) list \<Rightarrow> turn list list" where
  "exchanges c [] = []"
| "exchanges c ((remote, gs) # calls) =
     (case (human_message (max_response_length c) gs, analyze_body c remote gs) of
        (Inr prompt, (Inr reply, c')) \<Rightarrow>
          [\<lparr>turn_role = User, turn_text = prompt\<rparr>, \<lparr>turn_role = Assistant, turn_text = reply\<rparr>]
          # exchanges c' calls
      | (_, (_, c')) \<Rightarrow> exchanges c' calls)"

section \<open>The coordinator (main.py)\<close>

text \<open>
  An entry of \<^verbatim>\<open>ui_update_queue\<close>: the closures that the coordinator and the hotkey
  handlers put there. \<open>AddMessage text is_ai\<close> is
  \<^verbatim>\<open>lambda: self.overlay.add_message(text, time.time(), is_ai=is_ai)\<close>; its time stamp is
  read when the UI thread runs it.
\<close>

datatype ui_update = AddMessage string bool | ToggleVisibility | CyclePosition | ShowInput

record game_partner =
  screen_capture :: screen_capture
  ai_client :: ai_client
  message_queue :: "string list"
  ui_update_queue :: "ui_update list"
  current_game :: "string option"
  last_analysis_time :: real
  analysis_cooldown :: real
  running :: bool

text \<open>
  \<^verbatim>\<open>GamePartner.__init__\<close>, from the settings it reads: the cooldown has a floor of five
  seconds, the last analysis time starts at zero.
\<close>

definition game_partner_init :: "int \<Rightarrow> int \<Rightarrow> int \<Rightarrow> real \<Rightarrow> game_partner" where
  "game_partner_init capacity response_length window cooldown_seconds =
     \<lparr>screen_capture = screen_capture_init capacity,
      ai_client = ai_client_init response_length window,
      message_queue = [],
      ui_update_queue = [],
      current_game = None,
      last_analysis_time = 0,
      analysis_cooldown = max cooldown_seconds 5,
      running = True\<rparr>"

text \<open>The message callback set in \<^verbatim>\<open>run\<close>: \<^verbatim>\<open>lambda msg: self.message_queue.put(msg)\<close>.\<close>

definition put_message :: "game_partner \<Rightarrow> string \<Rightarrow> game_partner" where
  "put_message gp msg = gp\<lparr>message_queue := message_queue gp @ [msg]\<rparr>"

text \<open>The \<^verbatim>\<open>game_state\<close> dictionaries that the two request paths build.\<close>

definition message_game_state :: "game_partner \<Rightarrow> string \<Rightarrow> game_state" where
  "message_game_state gp message =
     \<lparr>gs_screenshots = Some (py_slice_from (- 1) (get_recent_screenshots (screen_capture gp) 1)),
      gs_message = Some message,
      gs_game_name = current_game gp,
      gs_additional_context = Some ''{}''\<rparr>"

definition auto_game_state :: "game_partner \<Rightarrow> game_state" where
  "auto_game_state gp =
     \<lparr>gs_screenshots = Some (py_slice_from (- 1) (get_recent_screenshots (screen_capture gp) 1)),
      gs_message = None,
      gs_game_name = current_game gp,
      gs_additional_context = Some ''{}''\<rparr>"

text \<open>
  \<^verbatim>\<open>_process_message\<close>. Without a screenshot it returns at once. Otherwise it calls
  \<^verbatim>\<open>analyze\<close>, queues the user's text and, if the response is a non-empty string, the
  response.
\<close>

definition process_message :: "game_partner \<Rightarrow> completion \<Rightarrow> string \<Rightarrow> game_partner" where
  "process_message gp remote message =
     (if get_recent_screenshots (screen_capture gp) 1 = [] then gp
      else
        (case analyze (ai_client gp) remote (message_game_state gp message) of
           (response, c') \<Rightarrow>
             (let q1 = ui_update_queue gp @ [AddMessage message False];
                  q2 = (if response \<noteq> [] then q1 @ [AddMessage response True] else q1)
              in gp\<lparr>ai_client := c', ui_update_queue := q2\<rparr>)))"

text \<open>\<^verbatim>\<open>_analyze_game_state\<close>: the same without a user message.\<close>

definition analyze_game_state :: "game_partner \<Rightarrow> completion \<Rightarrow> game_partner" where
  "analyze_game_state gp remote =
     (if get_recent_screenshots (screen_capture gp) 1 = [] then gp
      else
        (case analyze (ai_client gp) remote (auto_game_state gp) of
           (response, c') \<Rightarrow>
             (let q = (if response \<noteq> [] then ui_update_queue gp @ [AddMessage response True]
                       else ui_update_queue gp)
              in gp\<lparr>ai_client := c', ui_update_queue := q\<rparr>)))"

text \<open>
  Times are real numbers (the rounding of Python's floats is not modelled), and the
  capture thread does not touch the store while an iteration runs.
\<close>

text \<open>
  One iteration of the \<^verbatim>\<open>while self.running\<close> loop of \<^verbatim>\<open>_analysis_loop\<close>. \<open>now\<close> is the
  value of \<^verbatim>\<open>time.time()\<close> read after the message step; \<open>remote_msg\<close> and \<open>remote_auto\<close>
  are the remote service as the message request and the automatic request meet it. The
  message step takes the head of the inbox (\<^verbatim>\<open>get_nowait\<close>), if there is one; the
  periodic step follows it in every iteration.
\<close>

definition message_step :: "game_partner \<Rightarrow> completion \<Rightarrow> game_partner" where
  "message_step gp remote_msg =
     (case message_queue gp of
        [] \<Rightarrow> gp
      | message # rest \<Rightarrow> process_message (gp\<lparr>message_queue := rest\<rparr>) remote_msg message)"

definition periodic_step :: "game_partner \<Rightarrow> real \<Rightarrow> completion \<Rightarrow> game_partner" where
  "periodic_step gp now remote_auto =
     (if now - last_analysis_time gp \<ge> analysis_cooldown gp then
        (if get_recent_screenshots (screen_capture gp) 1 \<noteq> [] then
           (analyze_game_state gp remote_auto)\<lparr>last_analysis_time := now\<rparr>
         else gp)
      else gp)"

definition analysis_loop_iter :: "game_partner \<Rightarrow> real \<Rightarrow> completion \<Rightarrow> completion \<Rightarrow> game_partner" where
  "analysis_loop_iter gp now remote_msg remote_auto =
     periodic_step (message_step gp remote_msg) now remote_auto"

text \<open>
  The loop of \<^verbatim>\<open>_analysis_loop\<close> over the iterations it gets to run, each with its clock
  reading and its two views of the remote service; it stops when \<open>running\<close> is cleared.
  Nothing is put into the inbox while it runs.
\<close>

fun analysis_loop :: "game_partner \<Rightarrow> (real \<times> completion \<times> completion) list \<Rightarrow> game_partner" where
  "analysis_loop gp [] = gp"
| "analysis_loop gp ((now, remote_msg, remote_auto) # ticks) =
     (if running gp then analysis_loop (analysis_loop_iter gp now remote_msg remote_auto) ticks
      else gp)"

text \<open>The requests that a step sent to the remote service: the calls it added.\<close>

definition requests_sent :: "game_partner \<Rightarrow> game_partner \<Rightarrow> turn list list" where
  "requests_sent before after =
     drop (length (api_calls (ai_client before))) (api_calls (ai_client after))"

text \<open>The updates that a step queued for the UI thread.\<close>

definition updates_queued :: "game_partner \<Rightarrow> game_partner \<Rightarrow> ui_update list" where
  "updates_queued before after =
     drop (length (ui_update_queue before)) (ui_update_queue after)"

text \<open>An update that shows the error string of a failed analysis.\<close>

fun is_error_update :: "ui_update \<Rightarrow> bool" where
  "is_error_update (AddMessage text is_ai) = (is_ai \<and> prefix ''Error analyzing game state:'' text)"
| "is_error_update _ = False"

section \<open>Sample inputs\<close>

text \<open>Concrete values at which the theorems below are evaluated.\<close>

definition shot_a :: screenshot where
  "shot_a = \<lparr>image_path = ''a.png'', timestamp = 1\<rparr>"

definition always_reply :: "string \<Rightarrow> completion" where
  "always_reply reply messages = Inr [TextBlock reply]"

definition always_respond :: "content_block list \<Rightarrow> completion" where
  "always_respond content messages = Inr content"

definition always_raise :: "string \<Rightarrow> completion" where
  "always_raise msg messages = Inl (RemoteError msg)"

definition auto_request :: game_state where
  "auto_request =
     \<lparr>gs_screenshots = Some [shot_a], gs_message = None, gs_game_name = None,
      gs_additional_context = Some ''{}''\<rparr>"

text \<open>
  A coordinator as \<^verbatim>\<open>__init__\<close> leaves it (capacity 3, window 2, cooldown 5 seconds), with
  one screenshot in the store and the given messages in the inbox.
\<close>

definition sample_partner :: "string list \<Rightarrow> game_partner" where
  "sample_partner inbox =
     (game_partner_init 3 150 2 5)
       \<lparr>screen_capture := \<lparr>screenshots = [shot_a], max_screenshots = 3, removed_files = []\<rparr>,
        message_queue := inbox\<rparr>"

text \<open>The same coordinator before the first capture: the store is empty.\<close>

definition fresh_partner :: "string list \<Rightarrow> game_partner" where
  "fresh_partner inbox = (game_partner_init 3 150 2 5)\<lparr>message_queue := inbox\<rparr>"

section \<open>Properties of the screenshot store\<close>

lemma evict_old_fifo:
  assumes "0 \<le> m"
  shows "evict_old m xs removed =
           (None, drop (length xs - nat m) xs,
            removed @ map image_path (take (length xs - nat m) xs))"
  using assms
proof (induction xs arbitrary: removed)
  case Nil
  then show ?case by simp
next
  case (Cons x xs)
  show ?case
  proof (cases "int (length (x # xs)) > m")
    case True
    then have k: "length (x # xs) - nat m = Suc (length xs - nat m)"
      using Cons.prems by (simp add: Suc_diff_le nat_le_iff)
    show ?thesis
      using True Cons.IH [OF Cons.prems, of "removed @ [image_path x]"]
      by (simp only: evict_old.simps if_True k drop_Suc_Cons take_Suc_Cons list.map append_assoc
          append_Cons append_Nil)
  next
    case False
    then have "length (x # xs) - nat m = 0"
      using Cons.prems by simp
    then show ?thesis
      using False by simp
  qed
qed

lemma capture_loop_iter_max [simp]:
  "max_screenshots (capture_loop_iter sc out) = max_screenshots sc"
  by (simp add: capture_loop_iter_def split: capture_outcome.splits prod.splits)

lemma capture_loop_iter_bounded:
  assumes "0 \<le> max_screenshots sc"
    and "int (length (screenshots sc)) \<le> max_screenshots sc"
  shows "int (length (screenshots (capture_loop_iter sc out))) \<le> max_screenshots sc"
proof (cases out)
  case (Captured s)
  then show ?thesis
    using assms(1) by (simp add: capture_loop_iter_def evict_old_fifo [OF assms(1)])
qed (use assms in \<open>simp_all add: capture_loop_iter_def\<close>)

lemma capture_loop_bounded:
  assumes "0 \<le> max_screenshots sc"
    and "int (length (screenshots sc)) \<le> max_screenshots sc"
  shows "int (length (screenshots (capture_loop sc outs))) \<le> max_screenshots sc
         \<and> max_screenshots (capture_loop sc outs) = max_screenshots sc"
  using assms unfolding capture_loop_def
proof (induction outs arbitrary: sc)
  case Nil
  then show ?case by simp
next
  case (Cons out outs)
  have "int (length (screenshots (capture_loop_iter sc out))) \<le> max_screenshots (capture_loop_iter sc out)"
    using capture_loop_iter_bounded [OF Cons.prems] by simp
  moreover have "0 \<le> max_screenshots (capture_loop_iter sc out)"
    using Cons.prems by simp
  ultimately show ?case
    using Cons.IH [of "capture_loop_iter sc out"] by simp
qed

lemma capture_loop_iter_fifo:
  assumes "0 \<le> max_screenshots sc"
  shows "screenshots (capture_loop_iter sc (Captured s)) =
           drop (length (screenshots sc @ [s]) - nat (max_screenshots sc)) (screenshots sc @ [s])"
    and "removed_files (capture_loop_iter sc (Captured s)) =
           removed_files sc @
           map image_path (take (length (screenshots sc @ [s]) - nat (max_screenshots sc)) (screenshots sc @ [s]))"
  by (simp_all add: capture_loop_iter_def evict_old_fifo [OF assms])

lemma py_slice_from_last:
  assumes "0 < c"
  shows "py_slice_from (- c) xs = drop (length xs - nat c) xs"
proof -
  have "nat (max (- c + int (length xs)) 0) = length xs - nat c"
    using assms by (simp add: max_def nat_diff_distrib' nat_le_iff)
  then show ?thesis
    using assms by (simp add: py_slice_from_def Let_def)
qed

lemma get_recent_screenshots_positive:
  assumes "0 < c"
  shows "get_recent_screenshots sc c = drop (length (screenshots sc) - nat c) (screenshots sc)"
    and "int (length (get_recent_screenshots sc c)) \<le> c"
    and "suffix (get_recent_screenshots sc c) (screenshots sc)"
proof -
  show eq: "get_recent_screenshots sc c = drop (length (screenshots sc) - nat c) (screenshots sc)"
    by (simp add: get_recent_screenshots_def py_slice_from_last [OF assms])
  show "int (length (get_recent_screenshots sc c)) \<le> c"
    using assms unfolding eq by simp
  show "suffix (get_recent_screenshots sc c) (screenshots sc)"
    unfolding eq by (rule suffix_drop)
qed

lemma get_recent_screenshots_empty:
  "get_recent_screenshots sc 1 = [] \<longleftrightarrow> screenshots sc = []"
  by (cases "screenshots sc" rule: rev_cases)
     (simp_all add: get_recent_screenshots_positive(1))

text \<open>
  Claim C7. With a non-negative \<open>max_screenshots\<close>, whatever the capture loop meets, the
  store never holds more than \<open>max_screenshots\<close> entries once an iteration is over; and an
  iteration that inserts a screenshot keeps the newest entries of the old store followed
  by the new one, removing the files of the oldest entries, oldest first.
\<close>

theorem screenshot_store_bounded_fifo:
  assumes "0 \<le> m"
  shows "int (length (screenshots (capture_loop (screen_capture_init m) outs))) \<le> m
       \<and> (max_screenshots sc = m \<longrightarrow>
           int (length (screenshots (capture_loop_iter sc (Captured s)))) \<le> m
           \<and> screenshots (capture_loop_iter sc (Captured s)) =
               drop (length (screenshots sc @ [s]) - nat m) (screenshots sc @ [s])
           \<and> removed_files (capture_loop_iter sc (Captured s)) =
               removed_files sc @ map image_path (take (length (screenshots sc @ [s]) - nat m) (screenshots sc @ [s])))"
proof (intro conjI impI)
  show "int (length (screenshots (capture_loop (screen_capture_init m) outs))) \<le> m"
    using capture_loop_bounded [of "screen_capture_init m" outs] assms
    by (simp add: screen_capture_init_def)
next
  assume m: "max_screenshots sc = m"
  then have nonneg: "0 \<le> max_screenshots sc"
    using assms by simp
  show kept: "screenshots (capture_loop_iter sc (Captured s)) =
             drop (length (screenshots sc @ [s]) - nat m) (screenshots sc @ [s])"
    using capture_loop_iter_fifo(1) [OF nonneg, of s] by (simp only: m)
  show "removed_files (capture_loop_iter sc (Captured s)) =
             removed_files sc @ map image_path (take (length (screenshots sc @ [s]) - nat m) (screenshots sc @ [s]))"
    using capture_loop_iter_fifo(2) [OF nonneg, of s] by (simp only: m)
  show "int (length (screenshots (capture_loop_iter sc (Captured s)))) \<le> m"
    using assms unfolding kept by simp
qed

theorem screenshot_store_bounded_fifo_witness:
  "capture_loop_iter
     \<lparr>screenshots = [\<lparr>image_path = ''a.png'', timestamp = 1\<rparr>, \<lparr>image_path = ''b.png'', timestamp = 2\<rparr>],
      max_screenshots = 2, removed_files = []\<rparr>
     (Captured \<lparr>image_path = ''c.png'', timestamp = 3\<rparr>) =
   \<lparr>screenshots = [\<lparr>image_path = ''b.png'', timestamp = 2\<rparr>, \<lparr>image_path = ''c.png'', timestamp = 3\<rparr>],
    max_screenshots = 2, removed_files = [''a.png'']\<rparr>
   \<and> int (length (screenshots (capture_loop (screen_capture_init 2)
         [Captured \<lparr>image_path = ''a.png'', timestamp = 1\<rparr>, NoImage,
          Captured \<lparr>image_path = ''b.png'', timestamp = 2\<rparr>,
          Captured \<lparr>image_path = ''c.png'', timestamp = 3\<rparr>]))) \<le> 2"
  using screenshot_store_bounded_fifo [of 2
      "[Captured \<lparr>image_path = ''a.png'', timestamp = 1\<rparr>, NoImage,
          Captured \<lparr>image_path = ''b.png'', timestamp = 2\<rparr>,
          Captured \<lparr>image_path = ''c.png'', timestamp = 3\<rparr>]"
      "\<lparr>screenshots = [\<lparr>image_path = ''a.png'', timestamp = 1\<rparr>, \<lparr>image_path = ''b.png'', timestamp = 2\<rparr>],
      max_screenshots = 2, removed_files = []\<rparr>" "\<lparr>image_path = ''c.png'', timestamp = 3\<rparr>"]
  by (simp add: capture_loop_iter_def)

text \<open>
  Claim C9. \<open>get_recent_screenshots\<close> with \<open>count = 0\<close> on a store of two screenshots
  returns both of them (the slice \<^verbatim>\<open>[-0:]\<close> is the whole list), so the result is longer
  than \<open>count\<close>.
\<close>

theorem get_recent_screenshots_zero_returns_all:
  "get_recent_screenshots
     \<lparr>screenshots = [\<lparr>image_path = ''a.png'', timestamp = 1\<rparr>, \<lparr>image_path = ''b.png'', timestamp = 2\<rparr>],
      max_screenshots = 5, removed_files = []\<rparr> 0 =
   [\<lparr>image_path = ''a.png'', timestamp = 1\<rparr>, \<lparr>image_path = ''b.png'', timestamp = 2\<rparr>]
   \<and> \<not> int (length (get_recent_screenshots
     \<lparr>screenshots = [\<lparr>image_path = ''a.png'', timestamp = 1\<rparr>, \<lparr>image_path = ''b.png'', timestamp = 2\<rparr>],
      max_screenshots = 5, removed_files = []\<rparr> 0)) \<le> 0"
  by (simp add: get_recent_screenshots_def py_slice_from_def)

section \<open>Properties of the AI client\<close>

lemma trim_history_nonneg:
  assumes "0 \<le> b"
  shows "trim_history b h = (None, drop (length h - nat b) h)"
  using assms
proof (induction h)
  case Nil
  then show ?case by simp
next
  case (Cons t ts)
  show ?case
  proof (cases "int (length (t # ts)) > b")
    case True
    then have "length (t # ts) - nat b = Suc (length ts - nat b)"
      using Cons.prems by (simp add: Suc_diff_le nat_le_iff)
    then show ?thesis
      using True Cons.IH [OF Cons.prems] by (simp del: length_Cons list.size)
  next
    case False
    then have "length (t # ts) - nat b = 0"
      using Cons.prems by simp
    then show ?thesis
      using False by simp
  qed
qed

lemma analyze_body_no_prompt:
  assumes "human_message (max_response_length c) gs = Inl e"
  shows "analyze_body c remote gs = (Inl e, c)"
  using assms by (simp add: analyze_body_def)

lemma analyze_body_remote_raises:
  assumes "human_message (max_response_length c) gs = Inr prompt"
    and "remote (conversation_history c @ [\<lparr>turn_role = User, turn_text = prompt\<rparr>]) = Inl e"
  shows "analyze_body c remote gs =
           (Inl e, c\<lparr>api_calls := api_calls c @ [conversation_history c @ [\<lparr>turn_role = User, turn_text = prompt\<rparr>]]\<rparr>)"
  using assms by (simp add: analyze_body_def Let_def)

lemma analyze_body_replies:
  assumes "human_message (max_response_length c) gs = Inr prompt"
    and "remote (conversation_history c @ [\<lparr>turn_role = User, turn_text = prompt\<rparr>]) = Inr response"
    and "response_text response = Inr reply"
    and "0 \<le> max_history c"
  shows "analyze_body c remote gs =
           (Inr reply,
            c\<lparr>api_calls := api_calls c @ [conversation_history c @ [\<lparr>turn_role = User, turn_text = prompt\<rparr>]],
              conversation_history :=
                drop (length (conversation_history c @
                   [\<lparr>turn_role = User, turn_text = prompt\<rparr>, \<lparr>turn_role = Assistant, turn_text = reply\<rparr>])
                      - nat (max_history c * 2))
                  (conversation_history c @
                   [\<lparr>turn_role = User, turn_text = prompt\<rparr>, \<lparr>turn_role = Assistant, turn_text = reply\<rparr>])\<rparr>)"
proof -
  define h2 where "h2 = conversation_history c @
                   [\<lparr>turn_role = User, turn_text = prompt\<rparr>, \<lparr>turn_role = Assistant, turn_text = reply\<rparr>]"
  have "0 \<le> max_history c * 2"
    using assms(4) by simp
  then have t: "trim_history (max_history c * 2) h2 = (None, drop (length h2 - nat (max_history c * 2)) h2)"
    by (rule trim_history_nonneg)
  have "analyze_body c remote gs =
          (case trim_history (max_history c * 2) h2 of
             (Some e, h3) \<Rightarrow> (Inl e, c\<lparr>api_calls := api_calls c @ [conversation_history c @ [\<lparr>turn_role = User, turn_text = prompt\<rparr>]],
                 conversation_history := h3\<rparr>)
           | (None, h3) \<Rightarrow> (Inr reply, c\<lparr>api_calls := api_calls c @ [conversation_history c @ [\<lparr>turn_role = User, turn_text = prompt\<rparr>]],
                 conversation_history := h3\<rparr>))"
    using assms(1-3) by (simp add: analyze_body_def Let_def h2_def split: prod.splits option.splits)
  also have "\<dots> = (Inr reply, c\<lparr>api_calls := api_calls c @ [conversation_history c @ [\<lparr>turn_role = User, turn_text = prompt\<rparr>]],
                 conversation_history := drop (length h2 - nat (max_history c * 2)) h2\<rparr>)"
    by (simp only: t prod.case option.case)
  finally show ?thesis
    unfolding h2_def .
qed

lemma analyze_body_no_text:
  assumes "human_message (max_response_length c) gs = Inr prompt"
    and "remote (conversation_history c @ [\<lparr>turn_role = User, turn_text = prompt\<rparr>]) = Inr response"
    and "response_text response = Inl e"
  shows "analyze_body c remote gs =
           (Inl e,
            c\<lparr>api_calls := api_calls c @ [conversation_history c @ [\<lparr>turn_role = User, turn_text = prompt\<rparr>]],
              conversation_history := conversation_history c @ [\<lparr>turn_role = User, turn_text = prompt\<rparr>]\<rparr>)"
  using assms by (simp add: analyze_body_def Let_def)

lemma analyze_snd:
  "snd (analyze c remote gs) = snd (analyze_body c remote gs)"
  by (simp add: analyze_def split: prod.splits sum.splits)

lemma analyze_fst:
  "fst (analyze c remote gs) =
     (case fst (analyze_body c remote gs) of
        Inl e \<Rightarrow> ''Error analyzing game state: '' @ str_error e
      | Inr reply \<Rightarrow> reply)"
  by (simp add: analyze_def split: prod.splits sum.splits)

lemma error_string_prefix:
  "prefix ''Error analyzing game state:'' (''Error analyzing game state: '' @ msg)"
  by simp

lemma analyze_body_settings:
  "max_history (snd (analyze_body c remote gs)) = max_history c"
  "max_response_length (snd (analyze_body c remote gs)) = max_response_length c"
  by (simp_all add: analyze_body_def Let_def split: sum.splits prod.splits option.splits)

lemma length_concat_pairs:
  assumes "\<forall>x\<in>set E. length x = 2"
  shows "length (concat E) = 2 * length E"
  using assms by (induction E) simp_all

lemma drop_concat_pairs:
  assumes "\<forall>x\<in>set E. length x = 2"
  shows "drop (2 * k) (concat E) = concat (drop k E)"
  using assms
proof (induction E arbitrary: k)
  case Nil
  then show ?case by simp
next
  case (Cons x E)
  show ?case
  proof (cases k)
    case 0
    then show ?thesis by simp
  next
    case (Suc j)
    have "length x = 2"
      using Cons.prems by simp
    then show ?thesis
      using Cons.IH [of j] Cons.prems Suc by simp
  qed
qed

lemma window_snoc:
  "drop (length (drop (length E - w) E @ [x]) - w) (drop (length E - w) E @ [x]) =
   drop (length (E @ [x]) - w) (E @ [x])"
  by (cases "length E < w") (auto simp: Suc_diff_le)

lemma analyze_window:
  assumes "0 \<le> max_history c"
    and "\<forall>x\<in>set E. length x = 2"
    and "conversation_history c = concat (drop (length E - nat (max_history c)) E)"
    and "\<And>messages response. remote messages = Inr response \<Longrightarrow> \<exists>reply. response_text response = Inr reply"
  shows "conversation_history (snd (analyze_body c remote gs)) =
           concat (drop (length (E @ exchanges c [(remote, gs)]) - nat (max_history c))
                        (E @ exchanges c [(remote, gs)]))
         \<and> (\<forall>x\<in>set (E @ exchanges c [(remote, gs)]). length x = 2)"
proof (cases "human_message (max_response_length c) gs")
  case (Inl e)
  then show ?thesis
    using assms(2,3) by (simp add: analyze_body_no_prompt)
next
  case (Inr prompt)
  show ?thesis
  proof (cases "remote (conversation_history c @ [\<lparr>turn_role = User, turn_text = prompt\<rparr>])")
    case (Inl e)
    then show ?thesis
      using assms(2,3) Inr by (simp add: analyze_body_remote_raises)
  next
    case (Inr response)
    then obtain reply where reply: "response_text response = Inr reply"
      using assms(4) by blast
    define x where "x = [\<lparr>turn_role = User, turn_text = prompt\<rparr>, \<lparr>turn_role = Assistant, turn_text = reply\<rparr>]"
    define w where "w = nat (max_history c)"
    define K where "K = drop (length E - w) E"
    have body: "analyze_body c remote gs =
           (Inr reply,
            c\<lparr>api_calls := api_calls c @ [conversation_history c @ [\<lparr>turn_role = User, turn_text = prompt\<rparr>]],
              conversation_history :=
                drop (length (conversation_history c @ x) - nat (max_history c * 2))
                  (conversation_history c @ x)\<rparr>)"
      unfolding x_def
      using \<open>human_message (max_response_length c) gs = Inr prompt\<close> Inr reply assms(1)
      by (rule analyze_body_replies)
    have ex: "exchanges c [(remote, gs)] = [x]"
      using \<open>human_message (max_response_length c) gs = Inr prompt\<close>
      by (simp add: body x_def)
    have w2: "nat (max_history c * 2) = 2 * w"
      using assms(1) by (simp add: w_def nat_mult_distrib)
    have pairs: "\<forall>y\<in>set (K @ [x]). length y = 2"
      using assms(2) by (auto simp: K_def x_def dest: in_set_dropD)
    have hist: "conversation_history c @ x = concat (K @ [x])"
      using assms(3) by (simp add: K_def w_def)
    have "conversation_history (snd (analyze_body c remote gs)) =
            drop (length (conversation_history c @ x) - nat (max_history c * 2)) (conversation_history c @ x)"
      by (simp add: body)
    also have "\<dots> = drop (2 * (length (K @ [x]) - w)) (concat (K @ [x]))"
      unfolding hist w2 length_concat_pairs [OF pairs] by (simp add: diff_mult_distrib2)
    also have "\<dots> = concat (drop (length (K @ [x]) - w) (K @ [x]))"
      by (rule drop_concat_pairs [OF pairs])
    also have "\<dots> = concat (drop (length (E @ [x]) - w) (E @ [x]))"
      unfolding K_def by (simp only: window_snoc)
    finally have "conversation_history (snd (analyze_body c remote gs)) =
                    concat (drop (length (E @ [x]) - w) (E @ [x]))" .
    moreover have "\<forall>y\<in>set (E @ [x]). length y = 2"
      using assms(2) by (simp add: x_def)
    ultimately show ?thesis
      unfolding ex w_def by simp
  qed
qed

lemma exchanges_Cons:
  "exchanges c ((remote, gs) # calls) =
     exchanges c [(remote, gs)] @ exchanges (snd (analyze_body c remote gs)) calls"
  by (simp split: sum.splits prod.splits)

lemma analyze_all_window:
  assumes "0 \<le> max_history c"
    and "\<forall>x\<in>set E. length x = 2"
    and "conversation_history c = concat (drop (length E - nat (max_history c)) E)"
    and "\<And>remote gs messages response.
           (remote, gs) \<in> set calls \<Longrightarrow> remote messages = Inr response \<Longrightarrow>
           \<exists>reply. response_text response = Inr reply"
  shows "conversation_history (analyze_all c calls) =
           concat (drop (length (E @ exchanges c calls) - nat (max_history c)) (E @ exchanges c calls))
         \<and> (\<forall>x\<in>set (E @ exchanges c calls). length x = 2)"
  using assms
proof (induction calls arbitrary: c E)
  case Nil
  then show ?case by simp
next
  case (Cons call calls)
  obtain remote gs where call: "call = (remote, gs)"
    by (cases call)
  define c' where "c' = snd (analyze_body c remote gs)"
  define E' where "E' = E @ exchanges c [(remote, gs)]"
  have opens: "\<exists>reply. response_text response = Inr reply" if "remote messages = Inr response"
    for messages response
    using Cons.prems(4) that by (force simp: call)
  have step: "conversation_history c' = concat (drop (length E' - nat (max_history c)) E')"
    "\<forall>x\<in>set E'. length x = 2"
    using analyze_window [of c E remote gs, OF Cons.prems(1-3) opens] by (simp_all add: c'_def E'_def)
  have mh: "max_history c' = max_history c"
    by (simp add: c'_def analyze_body_settings)
  have rest: "\<exists>reply. response_text response = Inr reply"
    if "(r, g) \<in> set calls" and "r messages = Inr response" for r g messages response
    using Cons.prems(4) that by force
  have "conversation_history (analyze_all c' calls) =
           concat (drop (length (E' @ exchanges c' calls) - nat (max_history c')) (E' @ exchanges c' calls))
         \<and> (\<forall>x\<in>set (E' @ exchanges c' calls). length x = 2)"
  proof (rule Cons.IH)
    show "0 \<le> max_history c'"
      using Cons.prems(1) mh by simp
    show "\<forall>x\<in>set E'. length x = 2"
      by (rule step(2))
    show "conversation_history c' = concat (drop (length E' - nat (max_history c')) E')"
      using step(1) mh by simp
    show "\<exists>reply. response_text response = Inr reply"
      if "(r, g) \<in> set calls" and "r messages = Inr response" for r g messages response
      using rest that by blast
  qed
  moreover have "E' @ exchanges c' calls = E @ exchanges c (call # calls)"
    unfolding call E'_def c'_def exchanges_Cons [of c remote gs calls] by simp
  moreover have "analyze_all c (call # calls) = analyze_all c' calls"
    by (simp add: call c'_def analyze_snd)
  ultimately show ?case
    using mh by simp
qed

lemma analyze_replies:
  assumes "human_message (max_response_length c) gs = Inr prompt"
    and "remote (conversation_history c @ [\<lparr>turn_role = User, turn_text = prompt\<rparr>]) = Inr response"
    and "response_text response = Inr reply"
    and "0 \<le> max_history c"
  shows "analyze c remote gs =
           (reply,
            c\<lparr>api_calls := api_calls c @ [conversation_history c @ [\<lparr>turn_role = User, turn_text = prompt\<rparr>]],
              conversation_history :=
                drop (length (conversation_history c @
                   [\<lparr>turn_role = User, turn_text = prompt\<rparr>, \<lparr>turn_role = Assistant, turn_text = reply\<rparr>])
                      - nat (max_history c * 2))
                  (conversation_history c @
                   [\<lparr>turn_role = User, turn_text = prompt\<rparr>, \<lparr>turn_role = Assistant, turn_text = reply\<rparr>])\<rparr>)"
  using assms by (simp add: analyze_def analyze_body_replies)

lemma analyze_remote_raises:
  assumes "human_message (max_response_length c) gs = Inr prompt"
    and "remote (conversation_history c @ [\<lparr>turn_role = User, turn_text = prompt\<rparr>]) = Inl e"
  shows "analyze c remote gs =
           (''Error analyzing game state: '' @ str_error e,
            c\<lparr>api_calls := api_calls c @ [conversation_history c @ [\<lparr>turn_role = User, turn_text = prompt\<rparr>]]\<rparr>)"
  using assms by (simp add: analyze_def analyze_body_remote_raises)

text \<open>
  As long as every response that the remote service returns opens with a text block, and
  \<open>memory_window_size\<close> \<open>W\<close> is not negative, the history after any run of \<^verbatim>\<open>analyze\<close>
  calls on a fresh client has even length, at most \<open>2 * W\<close>, and is exactly the last
  \<open>min N W\<close> of the \<open>N\<close> exchanges the run completed, in order.
\<close>

lemma history_window_of_text_replies:
  assumes "0 \<le> W"
    and "\<And>remote gs messages response.
           (remote, gs) \<in> set calls \<Longrightarrow> remote messages = Inr response \<Longrightarrow>
           \<exists>reply. response_text response = Inr reply"
  shows "even (length (conversation_history (analyze_all (ai_client_init L W) calls)))
       \<and> int (length (conversation_history (analyze_all (ai_client_init L W) calls))) \<le> 2 * W
       \<and> conversation_history (analyze_all (ai_client_init L W) calls) =
           concat (drop (length (exchanges (ai_client_init L W) calls) - nat W)
                        (exchanges (ai_client_init L W) calls))
       \<and> length (drop (length (exchanges (ai_client_init L W) calls) - nat W)
                        (exchanges (ai_client_init L W) calls)) =
           min (length (exchanges (ai_client_init L W) calls)) (nat W)"
proof -
  define c where "c = ai_client_init L W"
  define ex where "ex = exchanges c calls"
  define recent where "recent = drop (length ex - nat W) ex"
  have "conversation_history (analyze_all c calls) =
           concat (drop (length ([] @ exchanges c calls) - nat (max_history c)) ([] @ exchanges c calls))
         \<and> (\<forall>x\<in>set ([] @ exchanges c calls). length x = 2)"
  proof (rule analyze_all_window)
    show "\<exists>reply. response_text response = Inr reply"
      if "(remote, gs) \<in> set calls" and "remote messages = Inr response" for remote gs messages response
      using assms(2) that by blast
  qed (use assms(1) in \<open>simp_all add: c_def ai_client_init_def\<close>)
  then have hist: "conversation_history (analyze_all c calls) = concat recent"
    and pairs: "\<forall>x\<in>set ex. length x = 2"
    by (simp_all add: recent_def ex_def c_def ai_client_init_def)
  have rp: "\<forall>x\<in>set recent. length x = 2"
    using pairs by (auto simp: recent_def dest: in_set_dropD)
  have len: "length (conversation_history (analyze_all c calls)) = 2 * length recent"
    unfolding hist by (rule length_concat_pairs [OF rp])
  have n: "length recent = min (length ex) (nat W)"
    by (simp add: recent_def)
  have "int (length (conversation_history (analyze_all c calls))) \<le> 2 * W"
    unfolding len n using assms(1) by simp
  then show ?thesis
    using len hist n unfolding recent_def ex_def c_def by simp
qed

text \<open>
  Claim C3. The code breaks it: when \<^verbatim>\<open>messages.create\<close> returns a response without any
  content block, \<^verbatim>\<open>analyze\<close> has already appended the user turn when
  \<^verbatim>\<open>response.content[0]\<close> raises, and the handler leaves it there. On a fresh client with a
  window of two exchanges the history then holds one turn; a reply after that makes it
  three turns, of which two are user turns in a row. With a window of one exchange, a
  completed exchange followed by such a response leaves three turns, more than twice the
  window.
\<close>

theorem response_without_text_leaves_user_turn:
  "analyze (ai_client_init 150 2) (always_respond []) auto_request =
     (''Error analyzing game state: list index out of range'',
      \<lparr>conversation_history = [\<lparr>turn_role = User, turn_text = analysis_prompt 1 150 ''{}''\<rparr>],
       max_history = 2, max_response_length = 150,
       api_calls = [[\<lparr>turn_role = User, turn_text = analysis_prompt 1 150 ''{}''\<rparr>]]\<rparr>)
   \<and> odd (length (conversation_history
        (snd (analyze (ai_client_init 150 2) (always_respond []) auto_request))))
   \<and> map turn_role (conversation_history (analyze_all (ai_client_init 150 2)
        [(always_respond [], auto_request), (always_reply ''ok'', auto_request)])) =
       [User, User, Assistant]
   \<and> int (length (conversation_history (analyze_all (ai_client_init 150 1)
        [(always_reply ''ok'', auto_request), (always_respond [], auto_request)]))) = 3
   \<and> 2 * max_history (analyze_all (ai_client_init 150 1)
        [(always_reply ''ok'', auto_request), (always_respond [], auto_request)]) = 2"
  by (simp add: ai_client_init_def always_reply_def always_respond_def auto_request_def
      analyze_def analyze_body_def human_message_def response_text_def str_error_def Let_def)

text \<open>
  Claim C2, as the code has it. Every \<^verbatim>\<open>analyze\<close> call whose remote call returns a
  response that opens with a text block appends a user-role turn holding the prompt and
  then the assistant-role turn holding the reply, the text of that block,
  whether or not the game state carries a user message; the history is then trimmed from
  the front to \<open>2 * max_history\<close> entries. With a window of at least one exchange the two
  new turns are the last two entries of the history.
\<close>

theorem analyze_appends_user_and_assistant:
  assumes "human_message (max_response_length c) gs = Inr prompt"
    and "remote (conversation_history c @ [\<lparr>turn_role = User, turn_text = prompt\<rparr>]) = Inr response"
    and "response_text response = Inr reply"
    and "0 \<le> max_history c"
  shows "conversation_history (snd (analyze c remote gs)) =
           drop (length (conversation_history c) + 2 - nat (max_history c * 2))
             (conversation_history c @
              [\<lparr>turn_role = User, turn_text = prompt\<rparr>, \<lparr>turn_role = Assistant, turn_text = reply\<rparr>])
         \<and> (0 < max_history c \<longrightarrow>
              conversation_history (snd (analyze c remote gs)) =
                drop (length (conversation_history c) + 2 - nat (max_history c * 2)) (conversation_history c) @
                [\<lparr>turn_role = User, turn_text = prompt\<rparr>, \<lparr>turn_role = Assistant, turn_text = reply\<rparr>])"
proof -
  have new: "conversation_history (snd (analyze c remote gs)) =
           drop (length (conversation_history c) + 2 - nat (max_history c * 2))
             (conversation_history c @
              [\<lparr>turn_role = User, turn_text = prompt\<rparr>, \<lparr>turn_role = Assistant, turn_text = reply\<rparr>])"
    using assms by (simp add: analyze_replies)
  have "length (conversation_history c) + 2 - nat (max_history c * 2) \<le> length (conversation_history c)"
    if "0 < max_history c"
    using that by linarith
  then show ?thesis
    unfolding new by simp
qed

theorem analyze_appends_user_and_assistant_witness:
  "human_message (max_response_length (ai_client_init 150 2)) auto_request = Inr (analysis_prompt 1 150 ''{}'')
   \<and> gs_message auto_request = None
   \<and> conversation_history (snd (analyze (ai_client_init 150 2) (always_reply ''ok'') auto_request)) =
       [\<lparr>turn_role = User, turn_text = analysis_prompt 1 150 ''{}''\<rparr>,
        \<lparr>turn_role = Assistant, turn_text = ''ok''\<rparr>]"
  using analyze_appends_user_and_assistant [of "ai_client_init 150 2" auto_request
      "analysis_prompt 1 150 ''{}''" "always_reply ''ok''" "[TextBlock ''ok'']" "''ok''"]
  by (simp add: ai_client_init_def always_reply_def auto_request_def human_message_def
      response_text_def)

text \<open>
  Claim C2 as stated fails: an automatic request (no user message) whose remote call
  returns leaves a user-role turn in the history, before the assistant-role turn.
\<close>

theorem auto_request_appends_user_turn:
  "gs_message auto_request = None
   \<and> map turn_role (conversation_history
        (snd (analyze (ai_client_init 150 2) (always_reply ''ok'') auto_request))) = [User, Assistant]"
  by (simp add: ai_client_init_def always_reply_def auto_request_def human_message_def
      analyze_def analyze_body_def response_text_def Let_def)

text \<open>
  Claim C10. \<^verbatim>\<open>analyze\<close> returns a string for every client, remote behaviour and game
  state: the reply when its body returns, and for every exception of the body (a missing
  key, a failing remote call, a response without text, an exception while trimming) the
  text ``Error analyzing game
  state: '' followed by the exception's message.
\<close>

theorem analyze_total:
  "fst (analyze c remote gs) =
     (case fst (analyze_body c remote gs) of
        Inl e \<Rightarrow> ''Error analyzing game state: '' @ str_error e
      | Inr reply \<Rightarrow> reply)
   \<and> (\<forall>e. fst (analyze_body c remote gs) = Inl e \<longrightarrow>
          prefix ''Error analyzing game state:'' (fst (analyze c remote gs)))
   \<and> (\<forall>prompt e. human_message (max_response_length c) gs = Inr prompt
          \<and> remote (conversation_history c @ [\<lparr>turn_role = User, turn_text = prompt\<rparr>]) = Inl e \<longrightarrow>
          fst (analyze c remote gs) = ''Error analyzing game state: '' @ str_error e)"
proof (intro conjI allI impI)
  show "fst (analyze c remote gs) =
     (case fst (analyze_body c remote gs) of
        Inl e \<Rightarrow> ''Error analyzing game state: '' @ str_error e
      | Inr reply \<Rightarrow> reply)"
    by (rule analyze_fst)
next
  fix e
  assume "fst (analyze_body c remote gs) = Inl e"
  then have "fst (analyze c remote gs) = ''Error analyzing game state: '' @ str_error e"
    by (simp add: analyze_fst)
  then show "prefix ''Error analyzing game state:'' (fst (analyze c remote gs))"
    by (simp only: error_string_prefix)
next
  fix prompt e
  assume "human_message (max_response_length c) gs = Inr prompt
          \<and> remote (conversation_history c @ [\<lparr>turn_role = User, turn_text = prompt\<rparr>]) = Inl e"
  then show "fst (analyze c remote gs) = ''Error analyzing game state: '' @ str_error e"
    by (simp add: analyze_remote_raises)
qed

theorem analyze_total_witness:
  "fst (analyze (ai_client_init 150 2) (always_raise ''connection refused'') auto_request) =
     ''Error analyzing game state: connection refused''
   \<and> fst (analyze (ai_client_init 150 2) (always_reply ''ok'')
        \<lparr>gs_screenshots = None, gs_message = None, gs_game_name = None, gs_additional_context = None\<rparr>) =
     ''Error analyzing game state: '' @ [CHR 0x27] @ ''screenshots'' @ [CHR 0x27]
   \<and> fst (analyze (ai_client_init 150 (- 1)) (always_reply ''ok'') auto_request) =
     ''Error analyzing game state: pop from empty list''
   \<and> fst (analyze (ai_client_init 150 2) (always_respond []) auto_request) =
     ''Error analyzing game state: list index out of range''
   \<and> fst (analyze (ai_client_init 150 2) (always_reply ''ok'') auto_request) = ''ok''"
  using analyze_total [of "ai_client_init 150 2" "always_raise ''connection refused''" auto_request]
    analyze_total [of "ai_client_init 150 2" "always_respond []" auto_request]
    analyze_total [of "ai_client_init 150 2" "always_reply ''ok''"
        "\<lparr>gs_screenshots = None, gs_message = None, gs_game_name = None, gs_additional_context = None\<rparr>"]
    analyze_total [of "ai_client_init 150 (- 1)" "always_reply ''ok''" auto_request]
    analyze_total [of "ai_client_init 150 2" "always_reply ''ok''" auto_request]
  by (simp add: ai_client_init_def always_reply_def always_raise_def always_respond_def
      auto_request_def human_message_def analyze_body_def response_text_def str_error_def Let_def)

section \<open>Properties of the coordinator\<close>

lemma analyze_api_calls:
  assumes "human_message (max_response_length c) gs = Inr prompt"
  shows "api_calls (snd (analyze c remote gs)) =
           api_calls c @ [conversation_history c @ [\<lparr>turn_role = User, turn_text = prompt\<rparr>]]"
  using assms
  by (simp add: analyze_snd analyze_body_def Let_def split: sum.splits prod.splits option.splits)

lemma analyze_settings:
  "max_history (snd (analyze c remote gs)) = max_history c"
  "max_response_length (snd (analyze c remote gs)) = max_response_length c"
  by (simp_all add: analyze_snd analyze_body_settings)

lemma latest_shot:
  assumes "screenshots sc \<noteq> []"
  shows "py_slice_from (- 1) (get_recent_screenshots sc 1) = [last (screenshots sc)]"
  using assms
  by (cases "screenshots sc" rule: rev_cases)
     (simp_all add: get_recent_screenshots_positive(1) py_slice_from_last)

lemma human_message_defined:
  assumes "gs_screenshots gs = Some shots"
  shows "\<exists>prompt. human_message limit gs = Inr prompt"
  using assms by (simp add: human_message_def Let_def)

lemma message_prompt:
  assumes "screenshots (screen_capture gp) \<noteq> []" and "current_game gp = None" and "message \<noteq> []"
  shows "human_message limit (message_game_state gp message) =
           Inr (''User message: '' @ message @ nl @ nl @ analysis_prompt 1 limit ''{}'')"
  using assms by (simp add: human_message_def message_game_state_def latest_shot)

lemma auto_prompt:
  assumes "screenshots (screen_capture gp) \<noteq> []" and "current_game gp = None"
  shows "human_message limit (auto_game_state gp) = Inr (analysis_prompt 1 limit ''{}'')"
  using assms by (simp add: human_message_def auto_game_state_def latest_shot)

lemma process_message_empty_store:
  assumes "screenshots (screen_capture gp) = []"
  shows "process_message gp remote message = gp"
  using assms by (simp add: process_message_def get_recent_screenshots_def)

lemma process_message_fields:
  "screen_capture (process_message gp remote message) = screen_capture gp"
  "message_queue (process_message gp remote message) = message_queue gp"
  "current_game (process_message gp remote message) = current_game gp"
  "last_analysis_time (process_message gp remote message) = last_analysis_time gp"
  "analysis_cooldown (process_message gp remote message) = analysis_cooldown gp"
  "running (process_message gp remote message) = running gp"
  by (simp_all add: process_message_def Let_def split: prod.splits)

lemma analyze_game_state_fields:
  "screen_capture (analyze_game_state gp remote) = screen_capture gp"
  "message_queue (analyze_game_state gp remote) = message_queue gp"
  "current_game (analyze_game_state gp remote) = current_game gp"
  "last_analysis_time (analyze_game_state gp remote) = last_analysis_time gp"
  "analysis_cooldown (analyze_game_state gp remote) = analysis_cooldown gp"
  "running (analyze_game_state gp remote) = running gp"
  by (simp_all add: analyze_game_state_def Let_def split: prod.splits)

lemma message_step_fields:
  "screen_capture (message_step gp remote) = screen_capture gp"
  "current_game (message_step gp remote) = current_game gp"
  "last_analysis_time (message_step gp remote) = last_analysis_time gp"
  "analysis_cooldown (message_step gp remote) = analysis_cooldown gp"
  "running (message_step gp remote) = running gp"
  by (simp_all add: message_step_def process_message_fields split: list.splits)

lemma message_step_queue:
  "message_queue (message_step gp remote) = tl (message_queue gp)"
  by (simp add: message_step_def process_message_fields split: list.splits)

lemma periodic_step_fields:
  "screen_capture (periodic_step gp now remote) = screen_capture gp"
  "message_queue (periodic_step gp now remote) = message_queue gp"
  "current_game (periodic_step gp now remote) = current_game gp"
  "analysis_cooldown (periodic_step gp now remote) = analysis_cooldown gp"
  "running (periodic_step gp now remote) = running gp"
  by (simp_all add: periodic_step_def analyze_game_state_fields)

lemma process_message_client:
  assumes "screenshots (screen_capture gp) \<noteq> []"
  shows "ai_client (process_message gp remote message) =
           snd (analyze (ai_client gp) remote (message_game_state gp message))"
  using assms
  by (simp add: process_message_def get_recent_screenshots_empty Let_def split: prod.splits)

lemma process_message_queue:
  assumes "screenshots (screen_capture gp) \<noteq> []"
  shows "ui_update_queue (process_message gp remote message) =
           ui_update_queue gp @ AddMessage message False #
             (if fst (analyze (ai_client gp) remote (message_game_state gp message)) \<noteq> []
              then [AddMessage (fst (analyze (ai_client gp) remote (message_game_state gp message))) True]
              else [])"
  using assms
  by (simp add: process_message_def get_recent_screenshots_empty Let_def split: prod.splits)

lemma analyze_game_state_client:
  assumes "screenshots (screen_capture gp) \<noteq> []"
  shows "ai_client (analyze_game_state gp remote) =
           snd (analyze (ai_client gp) remote (auto_game_state gp))"
  using assms
  by (simp add: analyze_game_state_def get_recent_screenshots_empty Let_def split: prod.splits)

lemma analyze_game_state_queue:
  assumes "screenshots (screen_capture gp) \<noteq> []"
  shows "ui_update_queue (analyze_game_state gp remote) =
           ui_update_queue gp @
             (if fst (analyze (ai_client gp) remote (auto_game_state gp)) \<noteq> []
              then [AddMessage (fst (analyze (ai_client gp) remote (auto_game_state gp))) True]
              else [])"
  using assms
  by (simp add: analyze_game_state_def get_recent_screenshots_empty Let_def split: prod.splits)

lemma message_game_state_queue [simp]:
  "message_game_state (gp\<lparr>message_queue := q\<rparr>) message = message_game_state gp message"
  by (simp add: message_game_state_def)

lemma auto_game_state_cong:
  assumes "screen_capture g = screen_capture gp" and "current_game g = current_game gp"
  shows "auto_game_state g = auto_game_state gp"
  using assms by (simp add: auto_game_state_def)

lemma message_step_Cons:
  assumes "message_queue gp = message # rest"
  shows "message_step gp remote = process_message (gp\<lparr>message_queue := rest\<rparr>) remote message"
  using assms by (simp add: message_step_def)

lemma message_step_Nil:
  assumes "message_queue gp = []"
  shows "message_step gp remote = gp"
  using assms by (simp add: message_step_def)

lemma message_step_calls:
  assumes "message_queue gp = message # rest"
    and "screenshots (screen_capture gp) \<noteq> []"
    and "human_message (max_response_length (ai_client gp)) (message_game_state gp message) = Inr prompt"
  shows "api_calls (ai_client (message_step gp remote)) =
           api_calls (ai_client gp) @
           [conversation_history (ai_client gp) @ [\<lparr>turn_role = User, turn_text = prompt\<rparr>]]"
  using assms
  by (simp add: message_step_Cons process_message_client analyze_api_calls)

lemma message_step_limit:
  "max_response_length (ai_client (message_step gp remote)) = max_response_length (ai_client gp)"
  by (cases "screenshots (screen_capture gp) = []")
     (simp_all add: message_step_def process_message_empty_store process_message_client
        analyze_settings split: list.splits)

lemma periodic_step_idle:
  assumes "now - last_analysis_time gp < analysis_cooldown gp \<or> screenshots (screen_capture gp) = []"
  shows "periodic_step gp now remote = gp"
  using assms by (auto simp: periodic_step_def get_recent_screenshots_empty)

lemma periodic_step_fires:
  assumes "now - last_analysis_time gp \<ge> analysis_cooldown gp"
    and "screenshots (screen_capture gp) \<noteq> []"
  shows "periodic_step gp now remote = (analyze_game_state gp remote)\<lparr>last_analysis_time := now\<rparr>"
  using assms by (simp add: periodic_step_def get_recent_screenshots_empty)

lemma periodic_step_calls:
  "\<exists>more. api_calls (ai_client (periodic_step gp now remote)) = api_calls (ai_client gp) @ more"
proof (cases "now - last_analysis_time gp \<ge> analysis_cooldown gp \<and> screenshots (screen_capture gp) \<noteq> []")
  case True
  obtain prompt where "human_message (max_response_length (ai_client gp)) (auto_game_state gp) = Inr prompt"
    using human_message_defined [of "auto_game_state gp"] by (auto simp: auto_game_state_def)
  then show ?thesis
    using True by (simp add: periodic_step_fires analyze_game_state_client analyze_api_calls)
next
  case False
  then have "periodic_step gp now remote = gp"
    by (intro periodic_step_idle) auto
  then show ?thesis by simp
qed

lemma analysis_loop_iter_queue:
  "message_queue (analysis_loop_iter gp now remote_msg remote_auto) = tl (message_queue gp)"
  by (simp add: analysis_loop_iter_def periodic_step_fields message_step_queue)

lemma analysis_loop_iter_running:
  "running (analysis_loop_iter gp now remote_msg remote_auto) = running gp"
  by (simp add: analysis_loop_iter_def periodic_step_fields message_step_fields)

lemma analysis_loop_queue:
  assumes "running gp"
  shows "message_queue (analysis_loop gp ticks) = drop (length ticks) (message_queue gp)"
  using assms
proof (induction ticks arbitrary: gp)
  case Nil
  then show ?case by simp
next
  case (Cons tick ticks)
  obtain now remote_msg remote_auto where tick: "tick = (now, remote_msg, remote_auto)"
    by (cases tick)
  have "running (analysis_loop_iter gp now remote_msg remote_auto)"
    using Cons.prems by (simp add: analysis_loop_iter_running)
  from Cons.IH [OF this] show ?case
    using Cons.prems by (simp add: tick analysis_loop_iter_queue drop_Suc)
qed

lemmas sample_defs =
  sample_partner_def fresh_partner_def game_partner_init_def ai_client_init_def screen_capture_init_def
  always_reply_def always_raise_def always_respond_def shot_a_def

lemmas step_defs =
  analysis_loop_iter_def message_step_def periodic_step_def process_message_def
  analyze_game_state_def analyze_def analyze_body_def human_message_def
  message_game_state_def auto_game_state_def get_recent_screenshots_def py_slice_from_def
  requests_sent_def updates_queued_def response_text_def str_error_def Let_def

text \<open>
  Claim C1, as the code has it. In an iteration that finds a pending message, an elapsed
  cooldown and a non-empty store, two requests are sent: first the one for the pending
  message, then the automatic one, which sees the history the first one left. The message
  leaves the inbox and the last analysis time becomes the clock reading.
\<close>

theorem message_and_periodic_both_submit:
  assumes "message_queue gp = message # rest"
    and "now - last_analysis_time gp \<ge> analysis_cooldown gp"
    and "screenshots (screen_capture gp) \<noteq> []"
    and "human_message (max_response_length (ai_client gp)) (message_game_state gp message) = Inr prompt_msg"
    and "human_message (max_response_length (ai_client gp)) (auto_game_state gp) = Inr prompt_auto"
  shows "requests_sent gp (analysis_loop_iter gp now remote_msg remote_auto) =
           [conversation_history (ai_client gp) @ [\<lparr>turn_role = User, turn_text = prompt_msg\<rparr>],
            conversation_history (ai_client (message_step gp remote_msg)) @
              [\<lparr>turn_role = User, turn_text = prompt_auto\<rparr>]]
         \<and> message_queue (analysis_loop_iter gp now remote_msg remote_auto) = rest
         \<and> last_analysis_time (analysis_loop_iter gp now remote_msg remote_auto) = now"
proof -
  define g where "g = message_step gp remote_msg"
  have calls1: "api_calls (ai_client g) = api_calls (ai_client gp) @
           [conversation_history (ai_client gp) @ [\<lparr>turn_role = User, turn_text = prompt_msg\<rparr>]]"
    unfolding g_def using assms(1,3,4) by (rule message_step_calls)
  have same: "screen_capture g = screen_capture gp" "current_game g = current_game gp"
    "last_analysis_time g = last_analysis_time gp" "analysis_cooldown g = analysis_cooldown gp"
    by (simp_all add: g_def message_step_fields)
  have auto: "human_message (max_response_length (ai_client g)) (auto_game_state g) = Inr prompt_auto"
    using assms(5) auto_game_state_cong [OF same(1,2)] by (simp add: g_def message_step_limit)
  have fires: "periodic_step g now remote_auto = (analyze_game_state g remote_auto)\<lparr>last_analysis_time := now\<rparr>"
    using assms(2,3) same by (intro periodic_step_fires) simp_all
  have calls2: "api_calls (ai_client (periodic_step g now remote_auto)) =
           api_calls (ai_client g) @ [conversation_history (ai_client g) @ [\<lparr>turn_role = User, turn_text = prompt_auto\<rparr>]]"
    using assms(3) same(1) auto by (simp add: fires analyze_game_state_client analyze_api_calls)
  have "requests_sent gp (periodic_step g now remote_auto) =
           [conversation_history (ai_client gp) @ [\<lparr>turn_role = User, turn_text = prompt_msg\<rparr>],
            conversation_history (ai_client g) @ [\<lparr>turn_role = User, turn_text = prompt_auto\<rparr>]]"
    by (simp add: requests_sent_def calls2 calls1)
  moreover have "message_queue (periodic_step g now remote_auto) = rest"
    using assms(1) by (simp add: periodic_step_fields g_def message_step_queue)
  moreover have "last_analysis_time (periodic_step g now remote_auto) = now"
    by (simp add: fires)
  ultimately show ?thesis
    by (simp add: analysis_loop_iter_def g_def)
qed

theorem message_and_periodic_both_submit_witness:
  "requests_sent (sample_partner [''hi''])
        (analysis_loop_iter (sample_partner [''hi'']) 10 (always_reply ''hello'') (always_reply ''tip'')) =
     [[\<lparr>turn_role = User, turn_text = ''User message: hi'' @ nl @ nl @ analysis_prompt 1 150 ''{}''\<rparr>],
      [\<lparr>turn_role = User, turn_text = ''User message: hi'' @ nl @ nl @ analysis_prompt 1 150 ''{}''\<rparr>,
       \<lparr>turn_role = Assistant, turn_text = ''hello''\<rparr>,
       \<lparr>turn_role = User, turn_text = analysis_prompt 1 150 ''{}''\<rparr>]]
   \<and> message_queue (analysis_loop_iter (sample_partner [''hi'']) 10 (always_reply ''hello'') (always_reply ''tip'')) = []
   \<and> last_analysis_time (analysis_loop_iter (sample_partner [''hi'']) 10 (always_reply ''hello'') (always_reply ''tip'')) = 10"
  using message_and_periodic_both_submit [of "sample_partner [''hi'']" "''hi''" "[]" 10
      "''User message: hi'' @ nl @ nl @ analysis_prompt 1 150 ''{}''" "analysis_prompt 1 150 ''{}''"
      "always_reply ''hello''" "always_reply ''tip''"]
  by (simp add: sample_defs step_defs)

text \<open>
  Claim C1 as stated fails: with the message ``hi'' pending, a cooldown of five seconds
  elapsed and one screenshot in the store, one iteration sends two requests.
\<close>

theorem message_and_periodic_in_one_tick:
  "message_queue (sample_partner [''hi'']) = [''hi'']
   \<and> 10 - last_analysis_time (sample_partner [''hi'']) \<ge> analysis_cooldown (sample_partner [''hi''])
   \<and> screenshots (screen_capture (sample_partner [''hi''])) \<noteq> []
   \<and> length (requests_sent (sample_partner [''hi''])
        (analysis_loop_iter (sample_partner [''hi'']) 10 (always_reply ''hello'') (always_reply ''tip''))) = 2"
  by (simp add: sample_defs step_defs)

lemma process_message_remote_raises:
  assumes "screenshots (screen_capture gp) \<noteq> []"
    and "human_message (max_response_length (ai_client gp)) (message_game_state gp message) = Inr prompt"
    and "remote (conversation_history (ai_client gp) @ [\<lparr>turn_role = User, turn_text = prompt\<rparr>]) = Inl e"
  shows "process_message gp remote message =
           gp\<lparr>ai_client := (ai_client gp)\<lparr>api_calls := api_calls (ai_client gp) @
                  [conversation_history (ai_client gp) @ [\<lparr>turn_role = User, turn_text = prompt\<rparr>]]\<rparr>,
              ui_update_queue := ui_update_queue gp @
                  [AddMessage message False,
                   AddMessage (''Error analyzing game state: '' @ str_error e) True]\<rparr>"
  using assms
  by (simp add: process_message_def get_recent_screenshots_empty analyze_remote_raises Let_def)

lemma analyze_game_state_remote_raises:
  assumes "screenshots (screen_capture gp) \<noteq> []"
    and "human_message (max_response_length (ai_client gp)) (auto_game_state gp) = Inr prompt"
    and "remote (conversation_history (ai_client gp) @ [\<lparr>turn_role = User, turn_text = prompt\<rparr>]) = Inl e"
  shows "analyze_game_state gp remote =
           gp\<lparr>ai_client := (ai_client gp)\<lparr>api_calls := api_calls (ai_client gp) @
                  [conversation_history (ai_client gp) @ [\<lparr>turn_role = User, turn_text = prompt\<rparr>]]\<rparr>,
              ui_update_queue := ui_update_queue gp @
                  [AddMessage (''Error analyzing game state: '' @ str_error e) True]\<rparr>"
  using assms
  by (simp add: analyze_game_state_def get_recent_screenshots_empty analyze_remote_raises Let_def)

lemma error_update_count:
  "length (filter is_error_update
     (drop (length q) (q @ [AddMessage (''Error analyzing game state: '' @ msg) True]))) = 1"
  "length (filter is_error_update
     (drop (length q) (q @ [AddMessage message False,
        AddMessage (''Error analyzing game state: '' @ msg) True]))) = 1"
  by simp_all

text \<open>
  Claim C4, as the code has it. A request whose remote call raises leaves the history as it
  was and queues exactly one error update, the string ``Error analyzing game state: ''
  followed by the exception's message, shown as an AI message: alone for an automatic
  request, after the echo of the user's text for a message request. So does an iteration
  that makes one request, and a failed automatic request still moves the last analysis
  time to the clock reading. An iteration that makes both requests and sees both fail
  queues two error updates. Nothing else of the coordinator changes (the \<open>running\<close> flag
  among the rest), so the loop goes on to the next iteration.
\<close>

theorem failed_request_reported:
  assumes "screenshots (screen_capture gp) \<noteq> []"
    and "human_message (max_response_length (ai_client gp)) (message_game_state gp message) = Inr prompt_msg"
    and "human_message (max_response_length (ai_client gp)) (auto_game_state gp) = Inr prompt_auto"
  shows "(remote_msg (conversation_history (ai_client gp) @ [\<lparr>turn_role = User, turn_text = prompt_msg\<rparr>]) = Inl e_msg \<longrightarrow>
            process_message gp remote_msg message =
              gp\<lparr>ai_client := (ai_client gp)\<lparr>api_calls := api_calls (ai_client gp) @
                     [conversation_history (ai_client gp) @ [\<lparr>turn_role = User, turn_text = prompt_msg\<rparr>]]\<rparr>,
                 ui_update_queue := ui_update_queue gp @
                     [AddMessage message False,
                      AddMessage (''Error analyzing game state: '' @ str_error e_msg) True]\<rparr>)
       \<and> (remote_auto (conversation_history (ai_client gp) @ [\<lparr>turn_role = User, turn_text = prompt_auto\<rparr>]) = Inl e_auto \<longrightarrow>
            analyze_game_state gp remote_auto =
              gp\<lparr>ai_client := (ai_client gp)\<lparr>api_calls := api_calls (ai_client gp) @
                     [conversation_history (ai_client gp) @ [\<lparr>turn_role = User, turn_text = prompt_auto\<rparr>]]\<rparr>,
                 ui_update_queue := ui_update_queue gp @
                     [AddMessage (''Error analyzing game state: '' @ str_error e_auto) True]\<rparr>)
       \<and> (message_queue gp = [] \<and> now - last_analysis_time gp \<ge> analysis_cooldown gp
          \<and> remote_auto (conversation_history (ai_client gp) @ [\<lparr>turn_role = User, turn_text = prompt_auto\<rparr>]) = Inl e_auto \<longrightarrow>
            analysis_loop_iter gp now remote_msg remote_auto =
              gp\<lparr>ai_client := (ai_client gp)\<lparr>api_calls := api_calls (ai_client gp) @
                     [conversation_history (ai_client gp) @ [\<lparr>turn_role = User, turn_text = prompt_auto\<rparr>]]\<rparr>,
                 ui_update_queue := ui_update_queue gp @
                     [AddMessage (''Error analyzing game state: '' @ str_error e_auto) True],
                 last_analysis_time := now\<rparr>
          \<and> length (filter is_error_update
                (updates_queued gp (analysis_loop_iter gp now remote_msg remote_auto))) = 1)
       \<and> (message_queue gp = message # rest \<and> now - last_analysis_time gp < analysis_cooldown gp
          \<and> remote_msg (conversation_history (ai_client gp) @ [\<lparr>turn_role = User, turn_text = prompt_msg\<rparr>]) = Inl e_msg \<longrightarrow>
            analysis_loop_iter gp now remote_msg remote_auto =
              gp\<lparr>message_queue := rest,
                 ai_client := (ai_client gp)\<lparr>api_calls := api_calls (ai_client gp) @
                     [conversation_history (ai_client gp) @ [\<lparr>turn_role = User, turn_text = prompt_msg\<rparr>]]\<rparr>,
                 ui_update_queue := ui_update_queue gp @
                     [AddMessage message False,
                      AddMessage (''Error analyzing game state: '' @ str_error e_msg) True]\<rparr>
          \<and> length (filter is_error_update
                (updates_queued gp (analysis_loop_iter gp now remote_msg remote_auto))) = 1)
       \<and> (message_queue gp = message # rest \<and> now - last_analysis_time gp \<ge> analysis_cooldown gp
          \<and> remote_msg (conversation_history (ai_client gp) @ [\<lparr>turn_role = User, turn_text = prompt_msg\<rparr>]) = Inl e_msg
          \<and> remote_auto (conversation_history (ai_client gp) @ [\<lparr>turn_role = User, turn_text = prompt_auto\<rparr>]) = Inl e_auto \<longrightarrow>
            analysis_loop_iter gp now remote_msg remote_auto =
              gp\<lparr>message_queue := rest,
                 ai_client := (ai_client gp)\<lparr>api_calls := api_calls (ai_client gp) @
                     [conversation_history (ai_client gp) @ [\<lparr>turn_role = User, turn_text = prompt_msg\<rparr>],
                      conversation_history (ai_client gp) @ [\<lparr>turn_role = User, turn_text = prompt_auto\<rparr>]]\<rparr>,
                 ui_update_queue := ui_update_queue gp @
                     [AddMessage message False,
                      AddMessage (''Error analyzing game state: '' @ str_error e_msg) True,
                      AddMessage (''Error analyzing game state: '' @ str_error e_auto) True],
                 last_analysis_time := now\<rparr>)"
proof (intro conjI impI)
  assume "remote_msg (conversation_history (ai_client gp) @ [\<lparr>turn_role = User, turn_text = prompt_msg\<rparr>]) = Inl e_msg"
  with assms(1,2) show "process_message gp remote_msg message =
              gp\<lparr>ai_client := (ai_client gp)\<lparr>api_calls := api_calls (ai_client gp) @
                     [conversation_history (ai_client gp) @ [\<lparr>turn_role = User, turn_text = prompt_msg\<rparr>]]\<rparr>,
                 ui_update_queue := ui_update_queue gp @
                     [AddMessage message False,
                      AddMessage (''Error analyzing game state: '' @ str_error e_msg) True]\<rparr>"
    by (rule process_message_remote_raises)
next
  assume "remote_auto (conversation_history (ai_client gp) @ [\<lparr>turn_role = User, turn_text = prompt_auto\<rparr>]) = Inl e_auto"
  with assms(1,3) show "analyze_game_state gp remote_auto =
              gp\<lparr>ai_client := (ai_client gp)\<lparr>api_calls := api_calls (ai_client gp) @
                     [conversation_history (ai_client gp) @ [\<lparr>turn_role = User, turn_text = prompt_auto\<rparr>]]\<rparr>,
                 ui_update_queue := ui_update_queue gp @
                     [AddMessage (''Error analyzing game state: '' @ str_error e_auto) True]\<rparr>"
    by (rule analyze_game_state_remote_raises)
next
  assume only_auto: "message_queue gp = [] \<and> now - last_analysis_time gp \<ge> analysis_cooldown gp
          \<and> remote_auto (conversation_history (ai_client gp) @ [\<lparr>turn_role = User, turn_text = prompt_auto\<rparr>]) = Inl e_auto"
  then have auto: "analyze_game_state gp remote_auto =
              gp\<lparr>ai_client := (ai_client gp)\<lparr>api_calls := api_calls (ai_client gp) @
                     [conversation_history (ai_client gp) @ [\<lparr>turn_role = User, turn_text = prompt_auto\<rparr>]]\<rparr>,
                 ui_update_queue := ui_update_queue gp @
                     [AddMessage (''Error analyzing game state: '' @ str_error e_auto) True]\<rparr>"
    using assms(1,3) by (intro analyze_game_state_remote_raises) simp_all
  show iter: "analysis_loop_iter gp now remote_msg remote_auto =
              gp\<lparr>ai_client := (ai_client gp)\<lparr>api_calls := api_calls (ai_client gp) @
                     [conversation_history (ai_client gp) @ [\<lparr>turn_role = User, turn_text = prompt_auto\<rparr>]]\<rparr>,
                 ui_update_queue := ui_update_queue gp @
                     [AddMessage (''Error analyzing game state: '' @ str_error e_auto) True],
                 last_analysis_time := now\<rparr>"
    using only_auto assms(1)
    by (simp add: analysis_loop_iter_def message_step_Nil periodic_step_fires auto)
  show "length (filter is_error_update
                (updates_queued gp (analysis_loop_iter gp now remote_msg remote_auto))) = 1"
    unfolding iter updates_queued_def by (simp add: error_update_count)
next
  assume only_msg: "message_queue gp = message # rest \<and> now - last_analysis_time gp < analysis_cooldown gp
          \<and> remote_msg (conversation_history (ai_client gp) @ [\<lparr>turn_role = User, turn_text = prompt_msg\<rparr>]) = Inl e_msg"
  have msg: "process_message (gp\<lparr>message_queue := rest\<rparr>) remote_msg message =
              gp\<lparr>message_queue := rest,
                 ai_client := (ai_client gp)\<lparr>api_calls := api_calls (ai_client gp) @
                     [conversation_history (ai_client gp) @ [\<lparr>turn_role = User, turn_text = prompt_msg\<rparr>]]\<rparr>,
                 ui_update_queue := ui_update_queue gp @
                     [AddMessage message False,
                      AddMessage (''Error analyzing game state: '' @ str_error e_msg) True]\<rparr>"
    using only_msg assms(1,2)
    by (subst process_message_remote_raises [where prompt = prompt_msg and e = e_msg]) simp_all
  show iter: "analysis_loop_iter gp now remote_msg remote_auto =
              gp\<lparr>message_queue := rest,
                 ai_client := (ai_client gp)\<lparr>api_calls := api_calls (ai_client gp) @
                     [conversation_history (ai_client gp) @ [\<lparr>turn_role = User, turn_text = prompt_msg\<rparr>]]\<rparr>,
                 ui_update_queue := ui_update_queue gp @
                     [AddMessage message False,
                      AddMessage (''Error analyzing game state: '' @ str_error e_msg) True]\<rparr>"
    using only_msg
    by (simp add: analysis_loop_iter_def message_step_Cons msg periodic_step_idle)
  show "length (filter is_error_update
                (updates_queued gp (analysis_loop_iter gp now remote_msg remote_auto))) = 1"
    unfolding iter updates_queued_def by (simp add: error_update_count)
next
  assume both: "message_queue gp = message # rest \<and> now - last_analysis_time gp \<ge> analysis_cooldown gp
          \<and> remote_msg (conversation_history (ai_client gp) @ [\<lparr>turn_role = User, turn_text = prompt_msg\<rparr>]) = Inl e_msg
          \<and> remote_auto (conversation_history (ai_client gp) @ [\<lparr>turn_role = User, turn_text = prompt_auto\<rparr>]) = Inl e_auto"
  define g where "g = gp\<lparr>message_queue := rest,
                 ai_client := (ai_client gp)\<lparr>api_calls := api_calls (ai_client gp) @
                     [conversation_history (ai_client gp) @ [\<lparr>turn_role = User, turn_text = prompt_msg\<rparr>]]\<rparr>,
                 ui_update_queue := ui_update_queue gp @
                     [AddMessage message False,
                      AddMessage (''Error analyzing game state: '' @ str_error e_msg) True]\<rparr>"
  have msg: "process_message (gp\<lparr>message_queue := rest\<rparr>) remote_msg message = g"
    unfolding g_def using both assms(1,2)
    by (subst process_message_remote_raises [where prompt = prompt_msg and e = e_msg]) simp_all
  have g_auto: "human_message (max_response_length (ai_client g)) (auto_game_state g) = Inr prompt_auto"
    using assms(3) auto_game_state_cong [of g gp] by (simp add: g_def)
  have auto: "analyze_game_state g remote_auto =
              g\<lparr>ai_client := (ai_client g)\<lparr>api_calls := api_calls (ai_client g) @
                     [conversation_history (ai_client g) @ [\<lparr>turn_role = User, turn_text = prompt_auto\<rparr>]]\<rparr>,
                 ui_update_queue := ui_update_queue g @
                     [AddMessage (''Error analyzing game state: '' @ str_error e_auto) True]\<rparr>"
    using g_auto both assms(1)
    by (intro analyze_game_state_remote_raises) (simp_all add: g_def)
  have fires: "periodic_step g now remote_auto = (analyze_game_state g remote_auto)\<lparr>last_analysis_time := now\<rparr>"
    using both assms(1) by (intro periodic_step_fires) (simp_all add: g_def)
  show "analysis_loop_iter gp now remote_msg remote_auto =
              gp\<lparr>message_queue := rest,
                 ai_client := (ai_client gp)\<lparr>api_calls := api_calls (ai_client gp) @
                     [conversation_history (ai_client gp) @ [\<lparr>turn_role = User, turn_text = prompt_msg\<rparr>],
                      conversation_history (ai_client gp) @ [\<lparr>turn_role = User, turn_text = prompt_auto\<rparr>]]\<rparr>,
                 ui_update_queue := ui_update_queue gp @
                     [AddMessage message False,
                      AddMessage (''Error analyzing game state: '' @ str_error e_msg) True,
                      AddMessage (''Error analyzing game state: '' @ str_error e_auto) True],
                 last_analysis_time := now\<rparr>"
    using both
    by (simp add: analysis_loop_iter_def message_step_Cons msg fires auto) (simp add: g_def)
qed

theorem failed_request_reported_witness:
  "process_message (sample_partner []) (always_raise ''timeout'') ''hi'' =
     (sample_partner [])
       \<lparr>ai_client := (ai_client (sample_partner []))
          \<lparr>api_calls := [[\<lparr>turn_role = User,
                            turn_text = ''User message: hi'' @ nl @ nl @ analysis_prompt 1 150 ''{}''\<rparr>]]\<rparr>,
        ui_update_queue := [AddMessage ''hi'' False, AddMessage ''Error analyzing game state: timeout'' True]\<rparr>
   \<and> analysis_loop_iter (sample_partner []) 10 (always_reply ''hello'') (always_raise ''timeout'') =
     (sample_partner [])
       \<lparr>ai_client := (ai_client (sample_partner []))
          \<lparr>api_calls := [[\<lparr>turn_role = User, turn_text = analysis_prompt 1 150 ''{}''\<rparr>]]\<rparr>,
        ui_update_queue := [AddMessage ''Error analyzing game state: timeout'' True],
        last_analysis_time := 10\<rparr>
   \<and> analysis_loop_iter (sample_partner [''hi'']) 3 (always_raise ''timeout'') (always_reply ''tip'') =
     (sample_partner [])
       \<lparr>ai_client := (ai_client (sample_partner []))
          \<lparr>api_calls := [[\<lparr>turn_role = User,
                            turn_text = ''User message: hi'' @ nl @ nl @ analysis_prompt 1 150 ''{}''\<rparr>]]\<rparr>,
        ui_update_queue := [AddMessage ''hi'' False, AddMessage ''Error analyzing game state: timeout'' True]\<rparr>
   \<and> conversation_history (ai_client
        (analysis_loop_iter (sample_partner [''hi'']) 10 (always_raise ''timeout'') (always_raise ''refused''))) = []
   \<and> updates_queued (sample_partner [''hi''])
        (analysis_loop_iter (sample_partner [''hi'']) 10 (always_raise ''timeout'') (always_raise ''refused'')) =
       [AddMessage ''hi'' False, AddMessage ''Error analyzing game state: timeout'' True,
        AddMessage ''Error analyzing game state: refused'' True]
   \<and> running (analysis_loop_iter (sample_partner [''hi'']) 10 (always_raise ''timeout'') (always_raise ''refused''))"
  using failed_request_reported [of "sample_partner []" "''hi''"
      "''User message: hi'' @ nl @ nl @ analysis_prompt 1 150 ''{}''" "analysis_prompt 1 150 ''{}''"
      "always_raise ''timeout''" "RemoteError ''timeout''"
      "always_raise ''timeout''" "RemoteError ''timeout''" 10 "[]"]
    failed_request_reported [of "sample_partner []" "''hi''"
      "''User message: hi'' @ nl @ nl @ analysis_prompt 1 150 ''{}''" "analysis_prompt 1 150 ''{}''"
      "always_reply ''hello''" "RemoteError ''timeout''"
      "always_raise ''timeout''" "RemoteError ''timeout''" 10 "[]"]
    failed_request_reported [of "sample_partner [''hi'']" "''hi''"
      "''User message: hi'' @ nl @ nl @ analysis_prompt 1 150 ''{}''" "analysis_prompt 1 150 ''{}''"
      "always_raise ''timeout''" "RemoteError ''timeout''"
      "always_reply ''tip''" "RemoteError ''timeout''" 3 "[]"]
    failed_request_reported [of "sample_partner [''hi'']" "''hi''"
      "''User message: hi'' @ nl @ nl @ analysis_prompt 1 150 ''{}''" "analysis_prompt 1 150 ''{}''"
      "always_raise ''timeout''" "RemoteError ''timeout''"
      "always_raise ''refused''" "RemoteError ''refused''" 10 "[]"]
  by (simp add: sample_defs step_defs)

text \<open>
  Claim C4 as stated fails: in one iteration with a pending message, an elapsed cooldown and
  a screenshot in the store, the remote calls of both requests raise and two error updates
  are queued.
\<close>

theorem two_failed_requests_in_one_tick:
  "message_queue (sample_partner [''hi'']) = [''hi'']
   \<and> 10 - last_analysis_time (sample_partner [''hi'']) \<ge> analysis_cooldown (sample_partner [''hi''])
   \<and> updates_queued (sample_partner [''hi''])
        (analysis_loop_iter (sample_partner [''hi'']) 10 (always_raise ''timeout'') (always_raise ''refused'')) =
       [AddMessage ''hi'' False, AddMessage ''Error analyzing game state: timeout'' True,
        AddMessage ''Error analyzing game state: refused'' True]
   \<and> length (filter is_error_update (updates_queued (sample_partner [''hi''])
        (analysis_loop_iter (sample_partner [''hi'']) 10 (always_raise ''timeout'') (always_raise ''refused'')))) = 2"
  by (simp add: sample_defs step_defs)

text \<open>
  Claim C5, as the code has it. With a cooldown of five seconds and the last analysis at
  \<open>T\<close>, an iteration before \<open>T + 5\<close> does the message step only, and nothing at all when
  the inbox is empty. A pending message is sent as the first request of the iteration
  whatever the clock says, provided the store holds a screenshot. The message step leaves
  the last analysis time at \<open>T\<close>.
\<close>

theorem cooldown_gates_automatic_requests_only:
  assumes "analysis_cooldown gp = 5" and "last_analysis_time gp = T"
  shows "(now < T + 5 \<longrightarrow> analysis_loop_iter gp now remote_msg remote_auto = message_step gp remote_msg)
       \<and> (now < T + 5 \<and> message_queue gp = [] \<longrightarrow>
            analysis_loop_iter gp now remote_msg remote_auto = gp)
       \<and> (message_queue gp = message # rest \<and> screenshots (screen_capture gp) \<noteq> []
          \<and> human_message (max_response_length (ai_client gp)) (message_game_state gp message) = Inr prompt \<longrightarrow>
            take 1 (requests_sent gp (analysis_loop_iter gp now remote_msg remote_auto)) =
              [conversation_history (ai_client gp) @ [\<lparr>turn_role = User, turn_text = prompt\<rparr>]])
       \<and> last_analysis_time (message_step gp remote_msg) = T"
proof (intro conjI impI)
  assume early: "now < T + 5"
  then have "now - last_analysis_time (message_step gp remote_msg) < analysis_cooldown (message_step gp remote_msg)"
    using assms by (simp add: message_step_fields)
  then show "analysis_loop_iter gp now remote_msg remote_auto = message_step gp remote_msg"
    by (simp add: analysis_loop_iter_def periodic_step_idle)
next
  assume early: "now < T + 5 \<and> message_queue gp = []"
  then have "now - last_analysis_time gp < analysis_cooldown gp"
    using assms by simp
  then show "analysis_loop_iter gp now remote_msg remote_auto = gp"
    using early by (simp add: analysis_loop_iter_def message_step_Nil periodic_step_idle)
next
  assume pending: "message_queue gp = message # rest \<and> screenshots (screen_capture gp) \<noteq> []
          \<and> human_message (max_response_length (ai_client gp)) (message_game_state gp message) = Inr prompt"
  then have calls: "api_calls (ai_client (message_step gp remote_msg)) =
           api_calls (ai_client gp) @
           [conversation_history (ai_client gp) @ [\<lparr>turn_role = User, turn_text = prompt\<rparr>]]"
    by (intro message_step_calls [of gp message rest]) simp_all
  obtain more where "api_calls (ai_client (periodic_step (message_step gp remote_msg) now remote_auto)) =
      api_calls (ai_client (message_step gp remote_msg)) @ more"
    using periodic_step_calls by blast
  then show "take 1 (requests_sent gp (analysis_loop_iter gp now remote_msg remote_auto)) =
              [conversation_history (ai_client gp) @ [\<lparr>turn_role = User, turn_text = prompt\<rparr>]]"
    by (simp add: requests_sent_def analysis_loop_iter_def calls)
next
  show "last_analysis_time (message_step gp remote_msg) = T"
    using assms(2) by (simp add: message_step_fields)
qed

theorem cooldown_gates_automatic_requests_only_witness:
  "analysis_cooldown (sample_partner [''hi'']) = 5
   \<and> last_analysis_time (sample_partner [''hi'']) = 0
   \<and> requests_sent (sample_partner [''hi''])
        (analysis_loop_iter (sample_partner [''hi'']) 3 (always_reply ''hello'') (always_reply ''tip'')) =
       [[\<lparr>turn_role = User, turn_text = ''User message: hi'' @ nl @ nl @ analysis_prompt 1 150 ''{}''\<rparr>]]
   \<and> analysis_loop_iter (sample_partner []) 3 (always_reply ''hello'') (always_reply ''tip'') = sample_partner []
   \<and> last_analysis_time (message_step (sample_partner [''hi'']) (always_reply ''hello'')) = 0"
  using cooldown_gates_automatic_requests_only [of "sample_partner [''hi'']" 0 3
      "always_reply ''hello''" "always_reply ''tip''" "''hi''" "[]"
      "''User message: hi'' @ nl @ nl @ analysis_prompt 1 150 ''{}''"]
    cooldown_gates_automatic_requests_only [of "sample_partner []" 0 3
      "always_reply ''hello''" "always_reply ''tip''" "''hi''" "[]"
      "''User message: hi'' @ nl @ nl @ analysis_prompt 1 150 ''{}''"]
  by (simp add: sample_defs step_defs)

text \<open>
  Claim C5 as stated fails: with an empty store a pending message is taken from the inbox
  and no request is sent for it.
\<close>

theorem message_without_screenshot_not_submitted:
  "analysis_cooldown (fresh_partner [''hi'']) = 5
   \<and> last_analysis_time (fresh_partner [''hi'']) = 0
   \<and> message_queue (fresh_partner [''hi'']) = [''hi'']
   \<and> requests_sent (fresh_partner [''hi''])
        (analysis_loop_iter (fresh_partner [''hi'']) 1 (always_reply ''hello'') (always_reply ''tip'')) = []
   \<and> message_queue
        (analysis_loop_iter (fresh_partner [''hi'']) 1 (always_reply ''hello'') (always_reply ''tip'')) = []"
  by (simp add: sample_defs step_defs)

text \<open>
  Claim C6, as the code has it. An iteration takes exactly the head of the inbox, and a run
  of iterations takes one message each, oldest first. With a screenshot in the store the
  message step sends exactly one request, built from a game state that carries the
  message; with an empty store the message is dropped and the iteration changes nothing
  else.
\<close>

theorem pending_message_drained_once:
  assumes "message_queue gp = message # rest"
  shows "message_queue (analysis_loop_iter gp now remote_msg remote_auto) = rest
       \<and> (running gp \<longrightarrow> message_queue (analysis_loop gp ticks) = drop (length ticks) (message # rest))
       \<and> gs_message (message_game_state gp message) = Some message
       \<and> (screenshots (screen_capture gp) \<noteq> []
          \<and> human_message (max_response_length (ai_client gp)) (message_game_state gp message) = Inr prompt \<longrightarrow>
            requests_sent gp (message_step gp remote_msg) =
              [conversation_history (ai_client gp) @ [\<lparr>turn_role = User, turn_text = prompt\<rparr>]])
       \<and> (screenshots (screen_capture gp) = [] \<longrightarrow>
            analysis_loop_iter gp now remote_msg remote_auto = gp\<lparr>message_queue := rest\<rparr>)"
proof (intro conjI impI)
  show "message_queue (analysis_loop_iter gp now remote_msg remote_auto) = rest"
    using assms by (simp add: analysis_loop_iter_queue)
next
  assume "running gp"
  then show "message_queue (analysis_loop gp ticks) = drop (length ticks) (message # rest)"
    using assms by (simp add: analysis_loop_queue)
next
  show "gs_message (message_game_state gp message) = Some message"
    by (simp add: message_game_state_def)
next
  assume "screenshots (screen_capture gp) \<noteq> []
          \<and> human_message (max_response_length (ai_client gp)) (message_game_state gp message) = Inr prompt"
  then have "api_calls (ai_client (message_step gp remote_msg)) =
           api_calls (ai_client gp) @
           [conversation_history (ai_client gp) @ [\<lparr>turn_role = User, turn_text = prompt\<rparr>]]"
    using assms by (intro message_step_calls [of gp message rest]) simp_all
  then show "requests_sent gp (message_step gp remote_msg) =
              [conversation_history (ai_client gp) @ [\<lparr>turn_role = User, turn_text = prompt\<rparr>]]"
    by (simp add: requests_sent_def)
next
  assume empty: "screenshots (screen_capture gp) = []"
  then have "message_step gp remote_msg = gp\<lparr>message_queue := rest\<rparr>"
    using assms by (simp add: message_step_Cons process_message_empty_store)
  then show "analysis_loop_iter gp now remote_msg remote_auto = gp\<lparr>message_queue := rest\<rparr>"
    using empty by (simp add: analysis_loop_iter_def periodic_step_idle)
qed

theorem pending_message_drained_once_witness:
  "message_queue (analysis_loop_iter (sample_partner [''hi'', ''there'']) 3
       (always_reply ''hello'') (always_reply ''tip'')) = [''there'']
   \<and> requests_sent (sample_partner [''hi'', ''there''])
        (message_step (sample_partner [''hi'', ''there'']) (always_reply ''hello'')) =
       [[\<lparr>turn_role = User, turn_text = ''User message: hi'' @ nl @ nl @ analysis_prompt 1 150 ''{}''\<rparr>]]
   \<and> message_queue (analysis_loop (sample_partner [''hi'', ''there''])
        [(3, always_reply ''hello'', always_reply ''tip''), (4, always_reply ''again'', always_reply ''tip'')]) = []
   \<and> analysis_loop_iter (fresh_partner [''hi'']) 3 (always_reply ''hello'') (always_reply ''tip'') =
       fresh_partner []"
  using pending_message_drained_once [of "sample_partner [''hi'', ''there'']" "''hi''" "[''there'']" 3
      "always_reply ''hello''" "always_reply ''tip''"
      "[(3, always_reply ''hello'', always_reply ''tip''), (4, always_reply ''again'', always_reply ''tip'')]"
      "''User message: hi'' @ nl @ nl @ analysis_prompt 1 150 ''{}''"]
    pending_message_drained_once [of "fresh_partner [''hi'']" "''hi''" "[]" 3
      "always_reply ''hello''" "always_reply ''tip''" "[]"
      "''User message: hi'' @ nl @ nl @ analysis_prompt 1 150 ''{}''"]
  by (simp add: sample_defs step_defs)

text \<open>
  Claim C6 as stated fails: with an empty store the first of two pending messages leaves
  the inbox while no request is sent and nothing is queued for the UI.
\<close>

theorem pending_message_dropped_without_screenshot:
  "screenshots (screen_capture (fresh_partner [''hi'', ''there''])) = []
   \<and> analysis_loop_iter (fresh_partner [''hi'', ''there'']) 10 (always_reply ''hello'') (always_reply ''tip'') =
       fresh_partner [''there'']"
  by (simp add: sample_defs step_defs)

text \<open>
  Claim C8, as the code has it. For a user message with a screenshot in the store, a remote
  call that returns a response opening with a text block (the reply) and a non-negative
  window, the updates queued are the user's text
  (not from the AI) and then the reply (from the AI) when the reply is a non-empty string;
  an empty reply queues the user's text alone.
\<close>

theorem message_echo_then_reply:
  assumes "screenshots (screen_capture gp) \<noteq> []"
    and "human_message (max_response_length (ai_client gp)) (message_game_state gp message) = Inr prompt"
    and "remote (conversation_history (ai_client gp) @ [\<lparr>turn_role = User, turn_text = prompt\<rparr>]) = Inr response"
    and "response_text response = Inr reply"
    and "0 \<le> max_history (ai_client gp)"
  shows "(reply \<noteq> [] \<longrightarrow>
            updates_queued gp (process_message gp remote message) =
              [AddMessage message False, AddMessage reply True])
       \<and> (reply = [] \<longrightarrow>
            updates_queued gp (process_message gp remote message) = [AddMessage message False])"
proof -
  have "fst (analyze (ai_client gp) remote (message_game_state gp message)) = reply"
    using assms(2-5) by (simp add: analyze_replies)
  then show ?thesis
    using assms(1) by (simp add: updates_queued_def process_message_queue)
qed

theorem message_echo_then_reply_witness:
  "updates_queued (sample_partner []) (process_message (sample_partner []) (always_reply ''hi'') ''hello'') =
     [AddMessage ''hello'' False, AddMessage ''hi'' True]
   \<and> updates_queued (sample_partner []) (process_message (sample_partner []) (always_reply []) ''hello'') =
     [AddMessage ''hello'' False]"
  using message_echo_then_reply [of "sample_partner []" "''hello''"
      "''User message: hello'' @ nl @ nl @ analysis_prompt 1 150 ''{}''" "always_reply ''hi''"
      "[TextBlock ''hi'']" "''hi''"]
    message_echo_then_reply [of "sample_partner []" "''hello''"
      "''User message: hello'' @ nl @ nl @ analysis_prompt 1 150 ''{}''" "always_reply []"
      "[TextBlock []]" "[]"]
  by (simp add: sample_defs step_defs)

text \<open>
  Claim C8 as stated fails: when the remote call returns the empty string, only the echo
  of the user's text is queued.
\<close>

theorem empty_reply_queues_only_the_echo:
  "screenshots (screen_capture (sample_partner [])) \<noteq> []
   \<and> updates_queued (sample_partner []) (process_message (sample_partner []) (always_reply []) ''hello'') =
       [AddMessage ''hello'' False]"
  by (simp add: sample_defs step_defs)

end
